theory Spec2Isabelle
  imports Complex_Main "HOL-Library.Multiset"
begin

section \<open>JavaScript values\<close>

text \<open>
  The class \<open>StockAPI\<close> of \<open>static/main.js\<close> handles loosely typed JSON documents, so the
  model has one type of JavaScript data values. A Number is \<open>NaN\<close>, an infinity, or
  \<open>Num q\<close>: the double nearest to the rational \<open>q\<close>. The sign of zero is not kept, and
  the model does not cover a \<open>q\<close> so large or so small that the nearest double is an
  infinity or zero. Two numbers that are equal in the model are equal doubles. An
  object is the list of its own enumerable properties in enumeration order, with
  distinct keys. Strings are lists of 8-bit characters.
\<close>

datatype jsnum = NaN | PosInf | NegInf | Num rat

datatype jsval =
    JUndefined
  | JNull
  | JBool bool
  | JNum jsnum
  | JStr string
  | JArr "jsval list"
  | JObj "(string \<times> jsval) list"

type_synonym jsobj = "(string \<times> jsval) list"

text \<open>
  Two built-ins of the JavaScript runtime are parameters of the model: the decimal
  rendering of a finite Number (\<open>Number::toString\<close>) and the parser behind
  \<open>new Date(string)\<close>, which yields the time value in milliseconds, or \<open>None\<close> for an
  Invalid Date.
\<close>

record runtime =
  NumberToString :: "rat \<Rightarrow> string"
  DateParse :: "string \<Rightarrow> int option"

datatype error =
    Error string
  | TypeError
  | SyntaxError
  | NetworkError

text \<open>
  \<open>Error msg\<close> is \<open>new Error(msg)\<close>; \<open>TypeError\<close> is the runtime's error for a property
  read on \<open>null\<close> or \<open>undefined\<close> and for calling a non-function; \<open>SyntaxError\<close> is the
  rejection of \<open>response.json()\<close>; \<open>NetworkError\<close> is the rejection of \<open>fetch\<close>.
\<close>

subsection \<open>Truthiness, property access, property assignment\<close>

fun truthy :: "jsval \<Rightarrow> bool" where
  "truthy JUndefined = False"
| "truthy JNull = False"
| "truthy (JBool b) = b"
| "truthy (JNum n) = (n \<noteq> NaN \<and> n \<noteq> Num 0)"
| "truthy (JStr s) = (s \<noteq> [])"
| "truthy (JArr xs) = True"
| "truthy (JObj kvs) = True"

text \<open>
  \<open>v[k]\<close> for the property names the program reads. None of them is an array index
  or an inherited property, so every value other than an object has no such property.
\<close>

fun get_prop :: "jsval \<Rightarrow> string \<Rightarrow> error + jsval" where
  "get_prop JUndefined k = Inl TypeError"
| "get_prop JNull k = Inl TypeError"
| "get_prop (JObj kvs) k = Inr (case map_of kvs k of None \<Rightarrow> JUndefined | Some v \<Rightarrow> v)"
| "get_prop v k = Inr JUndefined"

definition jsget :: "jsval \<Rightarrow> string \<Rightarrow> jsval" where
  "jsget v k = (case get_prop v k of Inl e \<Rightarrow> JUndefined | Inr x \<Rightarrow> x)"

definition nullish :: "jsval \<Rightarrow> bool" where
  "nullish v = (v = JUndefined \<or> v = JNull)"

text \<open>\<open>o[k] = v\<close>: an existing property keeps its place, a new one goes last.\<close>

fun set_prop :: "jsobj \<Rightarrow> string \<Rightarrow> jsval \<Rightarrow> jsobj" where
  "set_prop [] k v = [(k, v)]"
| "set_prop ((k', v') # kvs) k v =
     (if k' = k then (k, v) # kvs else (k', v') # set_prop kvs k v)"

text \<open>\<open>a || b\<close>\<close>

definition js_or :: "jsval \<Rightarrow> jsval \<Rightarrow> jsval" where
  "js_or a b = (if truthy a then a else b)"

subsection \<open>Strings of numbers\<close>

fun string_of_nat :: "nat \<Rightarrow> string" where
  "string_of_nat n =
     (if n < 10 then [char_of (48 + n)]
      else string_of_nat (n div 10) @ [char_of (48 + n mod 10)])"

declare string_of_nat.simps [simp del]

fun join :: "string \<Rightarrow> string list \<Rightarrow> string" where
  "join sep [] = []"
| "join sep [x] = x"
| "join sep (x # y # ys) = x @ sep @ join sep (y # ys)"

definition numToString :: "runtime \<Rightarrow> jsnum \<Rightarrow> string" where
  "numToString rt n =
     (case n of NaN \<Rightarrow> ''NaN'' | PosInf \<Rightarrow> ''Infinity'' | NegInf \<Rightarrow> ''-Infinity''
      | Num q \<Rightarrow> NumberToString rt q)"

text \<open>\<open>ToString\<close>, as \<open>parseFloat\<close>, \<open>new Error\<close> and \<open>URLSearchParams\<close> apply it.\<close>

fun ToString :: "runtime \<Rightarrow> jsval \<Rightarrow> string" where
  "ToString rt JUndefined = ''undefined''"
| "ToString rt JNull = ''null''"
| "ToString rt (JBool b) = (if b then ''true'' else ''false'')"
| "ToString rt (JNum n) = numToString rt n"
| "ToString rt (JStr s) = s"
| "ToString rt (JArr xs) =
     join '','' (map (\<lambda>x. if nullish x then [] else ToString rt x) xs)"
| "ToString rt (JObj kvs) = ''[object Object]''"

subsection \<open>\<open>JSON.stringify\<close>\<close>

definition hex_lower :: "nat \<Rightarrow> char" where
  "hex_lower d = (if d < 10 then char_of (48 + d) else char_of (87 + d))"

definition hex_upper :: "nat \<Rightarrow> char" where
  "hex_upper d = (if d < 10 then char_of (48 + d) else char_of (55 + d))"

definition quote_char :: "char \<Rightarrow> string" where
  "quote_char c =
     (let n = (of_char c :: nat) in
      if n = 8 then [CHR 0x5C, CHR ''b'']
      else if n = 9 then [CHR 0x5C, CHR ''t'']
      else if n = 10 then [CHR 0x5C, CHR ''n'']
      else if n = 12 then [CHR 0x5C, CHR ''f'']
      else if n = 13 then [CHR 0x5C, CHR ''r'']
      else if n = 34 then [CHR 0x5C, CHR 0x22]
      else if n = 92 then [CHR 0x5C, CHR 0x5C]
      else if n < 32 then
        [CHR 0x5C, CHR ''u'', CHR ''0'', CHR ''0'', hex_lower (n div 16), hex_lower (n mod 16)]
      else [c])"

definition QuoteJSONString :: "string \<Rightarrow> string" where
  "QuoteJSONString s = CHR 0x22 # concat (map quote_char s) @ [CHR 0x22]"

text \<open>
  The serialisation of one value. An \<open>undefined\<close> array element is written \<open>null\<close>; a
  property whose value is \<open>undefined\<close> is left out; a Number that is not finite is
  written \<open>null\<close>.
\<close>

fun SerializeJSON :: "runtime \<Rightarrow> jsval \<Rightarrow> string" where
  "SerializeJSON rt JUndefined = ''null''"
| "SerializeJSON rt JNull = ''null''"
| "SerializeJSON rt (JBool b) = (if b then ''true'' else ''false'')"
| "SerializeJSON rt (JNum n) = (case n of Num q \<Rightarrow> NumberToString rt q | _ \<Rightarrow> ''null'')"
| "SerializeJSON rt (JStr s) = QuoteJSONString s"
| "SerializeJSON rt (JArr xs) = ''['' @ join '','' (map (SerializeJSON rt) xs) @ '']''"
| "SerializeJSON rt (JObj kvs) =
     ''{'' @ join '',''
       (map (\<lambda>kv. QuoteJSONString (fst kv) @ '':'' @ SerializeJSON rt (snd kv))
          (filter (\<lambda>kv. snd kv \<noteq> JUndefined) kvs)) @ ''}''"

text \<open>\<open>JSON.stringify(params)\<close> for an object \<open>params\<close>.\<close>

definition JSON_stringify :: "runtime \<Rightarrow> jsobj \<Rightarrow> string" where
  "JSON_stringify rt params = SerializeJSON rt (JObj params)"

subsection \<open>\<open>new URLSearchParams(params).toString()\<close>\<close>

definition urlencode_char :: "char \<Rightarrow> string" where
  "urlencode_char c =
     (let n = (of_char c :: nat) in
      if (48 \<le> n \<and> n \<le> 57) \<or> (65 \<le> n \<and> n \<le> 90) \<or> (97 \<le> n \<and> n \<le> 122)
         \<or> n = 42 \<or> n = 45 \<or> n = 46 \<or> n = 95 then [c]
      else if n = 32 then ''+''
      else [CHR ''%'', hex_upper (n div 16), hex_upper (n mod 16)])"

definition urlencode :: "string \<Rightarrow> string" where
  "urlencode s = concat (map urlencode_char s)"

definition URLSearchParams_toString :: "runtime \<Rightarrow> jsobj \<Rightarrow> string" where
  "URLSearchParams_toString rt params =
     join ''&'' (map (\<lambda>kv. urlencode (fst kv) @ ''='' @ urlencode (ToString rt (snd kv))) params)"

subsection \<open>\<open>parseFloat\<close> and \<open>parseInt\<close>\<close>

definition is_ws :: "char \<Rightarrow> bool" where
  "is_ws c = (let n = (of_char c :: nat) in (9 \<le> n \<and> n \<le> 13) \<or> n = 32)"

definition is_digit :: "char \<Rightarrow> bool" where
  "is_digit c = (let n = (of_char c :: nat) in 48 \<le> n \<and> n \<le> 57)"

definition is_hex_digit :: "char \<Rightarrow> bool" where
  "is_hex_digit c =
     (let n = (of_char c :: nat) in
      (48 \<le> n \<and> n \<le> 57) \<or> (65 \<le> n \<and> n \<le> 70) \<or> (97 \<le> n \<and> n \<le> 102))"

definition digit_val :: "char \<Rightarrow> nat" where
  "digit_val c =
     (let n = (of_char c :: nat) in
      if n \<le> 57 then n - 48 else if n \<le> 70 then n - 55 else n - 87)"

definition digits_val :: "nat \<Rightarrow> string \<Rightarrow> nat" where
  "digits_val radix ds = foldl (\<lambda>a c. radix * a + digit_val c) 0 ds"

definition split_sign :: "string \<Rightarrow> bool \<times> string" where
  "split_sign s =
     (case s of
        [] \<Rightarrow> (False, [])
      | c # r \<Rightarrow> if c = CHR ''-'' then (True, r) else if c = CHR ''+'' then (False, r) else (False, s))"

definition exponent_of :: "string \<Rightarrow> int" where
  "exponent_of s =
     (case s of
        [] \<Rightarrow> 0
      | c # r \<Rightarrow>
          if c = CHR ''e'' \<or> c = CHR ''E'' then
            (let sd = split_sign r; ds = takeWhile is_digit (snd sd) in
             if ds = [] then 0
             else if fst sd then - int (digits_val 10 ds) else int (digits_val 10 ds))
          else 0)"

definition pow10 :: "int \<Rightarrow> rat" where
  "pow10 e = (if 0 \<le> e then 10 ^ nat e else 1 / 10 ^ nat (- e))"

text \<open>
  \<open>parseFloat\<close> on a string: leading white space is dropped (the ASCII white space
  characters; those outside ASCII are not modelled), then the longest prefix that is a
  decimal literal is read; its value is the literal's exact value, standing for the
  nearest double.
\<close>

definition parseFloat :: "string \<Rightarrow> jsnum" where
  "parseFloat s =
     (let su = split_sign (dropWhile is_ws s); neg = fst su; u = snd su in
      if take 8 u = ''Infinity'' then (if neg then NegInf else PosInf)
      else
        (let ip = takeWhile is_digit u;
             r1 = dropWhile is_digit u;
             dot = (case r1 of [] \<Rightarrow> False | c # r \<Rightarrow> c = CHR ''.'');
             fp = (if dot then takeWhile is_digit (tl r1) else []);
             r2 = (if dot then dropWhile is_digit (tl r1) else r1)
         in if ip = [] \<and> fp = [] then NaN
            else
              (let m = of_nat (digits_val 10 ip) + of_nat (digits_val 10 fp) / 10 ^ length fp;
                   q = m * pow10 (exponent_of r2)
               in Num (if neg then - q else q))))"

text \<open>\<open>parseInt\<close> on a string, with no radix argument.\<close>

definition parseInt :: "string \<Rightarrow> jsnum" where
  "parseInt s =
     (let su = split_sign (dropWhile is_ws s); neg = fst su; u = snd su;
          hex = (take 2 u = ''0x'' \<or> take 2 u = ''0X'');
          ds = (if hex then takeWhile is_hex_digit (drop 2 u) else takeWhile is_digit u)
      in if ds = [] then NaN
         else
           (let n = (of_nat (digits_val (if hex then 16 else 10) ds) :: rat)
            in Num (if neg then - n else n)))"

text \<open>Both functions convert their argument to a string first.\<close>

definition parseFloat_val :: "runtime \<Rightarrow> jsval \<Rightarrow> jsval" where
  "parseFloat_val rt v = JNum (parseFloat (ToString rt v))"

definition parseInt_val :: "runtime \<Rightarrow> jsval \<Rightarrow> jsval" where
  "parseInt_val rt v = JNum (parseInt (ToString rt v))"

subsection \<open>\<open>Array.prototype.sort\<close> with a comparison function\<close>

text \<open>
  The comparison function returns a Number; \<open>a\<close> is placed after \<open>b\<close> only when the
  result is greater than zero, and \<open>NaN\<close> counts as zero. The sort is stable. With a
  consistent comparison function every implementation returns the same array; the
  order for an inconsistent one is left to the implementation, and the model then
  gives the order of a stable insertion sort.
\<close>

definition positive :: "jsnum \<Rightarrow> bool" where
  "positive n = (case n of Num q \<Rightarrow> 0 < q | PosInf \<Rightarrow> True | _ \<Rightarrow> False)"

fun insert_by :: "('a \<Rightarrow> 'a \<Rightarrow> jsnum) \<Rightarrow> 'a \<Rightarrow> 'a list \<Rightarrow> 'a list" where
  "insert_by cmp x [] = [x]"
| "insert_by cmp x (y # ys) =
     (if positive (cmp x y) then y # insert_by cmp x ys else x # y # ys)"

definition Array_sort :: "('a \<Rightarrow> 'a \<Rightarrow> jsnum) \<Rightarrow> 'a list \<Rightarrow> 'a list" where
  "Array_sort cmp xs = foldr (insert_by cmp) xs []"

text \<open>
  \<open>new Date(v) - new Date(w)\<close>: the difference of the two time values, \<open>NaN\<close> when
  either date is invalid. The program builds dates from strings only.
\<close>

definition new_Date :: "runtime \<Rightarrow> jsval \<Rightarrow> int option" where
  "new_Date rt v = (case v of JStr s \<Rightarrow> DateParse rt s | _ \<Rightarrow> None)"

definition date_diff :: "runtime \<Rightarrow> jsval \<Rightarrow> jsval \<Rightarrow> jsnum" where
  "date_diff rt v w =
     (case new_Date rt v of
        None \<Rightarrow> NaN
      | Some x \<Rightarrow> (case new_Date rt w of None \<Rightarrow> NaN | Some y \<Rightarrow> Num (of_int (x - y))))"

text \<open>\<open>Object.entries\<close> and \<open>Object.keys\<close>\<close>

fun indexed :: "nat \<Rightarrow> jsval list \<Rightarrow> jsobj" where
  "indexed i [] = []"
| "indexed i (x # xs) = (string_of_nat i, x) # indexed (Suc i) xs"

fun Object_entries :: "jsval \<Rightarrow> error + jsobj" where
  "Object_entries JUndefined = Inl TypeError"
| "Object_entries JNull = Inl TypeError"
| "Object_entries (JObj kvs) = Inr kvs"
| "Object_entries (JArr xs) = Inr (indexed 0 xs)"
| "Object_entries (JStr s) = Inr (indexed 0 (map (\<lambda>c. JStr [c]) s))"
| "Object_entries v = Inr []"

definition Object_keys :: "jsval \<Rightarrow> error + string list" where
  "Object_keys v = (case Object_entries v of Inl e \<Rightarrow> Inl e | Inr kvs \<Rightarrow> Inr (map fst kvs))"

section \<open>The class \<open>StockAPI\<close>\<close>

record cache_entry =
  data :: jsval
  timestamp :: int

record StockAPI =
  apiKey :: string
  baseUrl :: string
  cache :: "string \<rightharpoonup> cache_entry"
  cacheDuration :: int

definition constructor :: "string \<Rightarrow> StockAPI" where
  "constructor key =
     \<lparr>apiKey = key, baseUrl = ''https://www.alphavantage.co/query'',
      cache = Map.empty, cacheDuration = 5 * 60 * 1000\<rparr>"

text \<open>
  What one call of \<open>makeRequest\<close> reads from outside: \<open>Date.now()\<close> at the cache check,
  what \<open>fetch\<close> answers for a URL, and \<open>Date.now()\<close> when the answer is stored. An answer
  has a status and a body; the body is \<open>None\<close> when it is not JSON.
\<close>

datatype fetch_result = Rejected | Response nat "jsval option"

record env =
  now_check :: int
  fetch :: "string \<Rightarrow> fetch_result"
  now_store :: int

definition ok :: "nat \<Rightarrow> bool" where
  "ok status = (200 \<le> status \<and> status \<le> 299)"

text \<open>What a call does to the outside: network calls and console output, in order.\<close>

datatype effect = Fetch string | Warn string jsval | ConsoleError string error

text \<open>
  The outcome of a call: the value returned or the error thrown, the object's state
  afterwards, the contents of the caller's \<open>params\<close> object afterwards, and the effects.
\<close>

record outcome =
  result :: "error + jsval"
  state :: StockAPI
  params_after :: jsobj
  effects :: "effect list"

definition request_url :: "runtime \<Rightarrow> StockAPI \<Rightarrow> jsobj \<Rightarrow> string" where
  "request_url rt st params =
     baseUrl st @ ''?'' @ URLSearchParams_toString rt (set_prop params ''apikey'' (JStr (apiKey st)))"

definition thrown :: "StockAPI \<Rightarrow> jsobj \<Rightarrow> string \<Rightarrow> error \<Rightarrow> outcome" where
  "thrown st params url e =
     \<lparr>result = Inl e, state = st, params_after = params,
      effects = [Fetch url, ConsoleError ''API request failed:'' e]\<rparr>"

text \<open>The \<open>try\<close> block of \<open>makeRequest\<close>, entered on a cache miss.\<close>

definition fetch_and_store :: "runtime \<Rightarrow> env \<Rightarrow> StockAPI \<Rightarrow> jsobj \<Rightarrow> string \<Rightarrow> outcome" where
  "fetch_and_store rt env st params0 cacheKey =
     (let params = set_prop params0 ''apikey'' (JStr (apiKey st));
          queryString = URLSearchParams_toString rt params;
          url = baseUrl st @ ''?'' @ queryString
      in case fetch env url of
           Rejected \<Rightarrow> thrown st params url NetworkError
         | Response status body \<Rightarrow>
             if \<not> ok status then
               thrown st params url (Error (''HTTP error! status: '' @ string_of_nat status))
             else
               (case body of
                  None \<Rightarrow> thrown st params url SyntaxError
                | Some d \<Rightarrow>
                    (case get_prop d ''Error Message'' of
                       Inl e \<Rightarrow> thrown st params url e
                     | Inr msg \<Rightarrow>
                         if truthy msg then thrown st params url (Error (ToString rt msg))
                         else
                           \<lparr>result = Inr d,
                            state = st\<lparr>cache := (cache st)(cacheKey \<mapsto>
                                       \<lparr>data = d, timestamp = now_store env\<rparr>)\<rparr>,
                            params_after = params,
                            effects = Fetch url #
                              (if truthy (jsget d ''Note'')
                               then [Warn ''API rate limit note:'' (jsget d ''Note'')] else [])\<rparr>)))"

definition makeRequest :: "runtime \<Rightarrow> env \<Rightarrow> StockAPI \<Rightarrow> jsobj \<Rightarrow> outcome" where
  "makeRequest rt env st params =
     (let cacheKey = JSON_stringify rt params in
      case cache st cacheKey of
        None \<Rightarrow> fetch_and_store rt env st params cacheKey
      | Some cached \<Rightarrow>
          if now_check env - timestamp cached < cacheDuration st then
            \<lparr>result = Inr (data cached), state = st, params_after = params, effects = []\<rparr>
          else fetch_and_store rt env st params cacheKey)"

definition clearCache :: "StockAPI \<Rightarrow> StockAPI" where
  "clearCache st = st\<lparr>cache := Map.empty\<rparr>"

definition setCacheDuration :: "StockAPI \<Rightarrow> int \<Rightarrow> StockAPI" where
  "setCacheDuration st duration = st\<lparr>cacheDuration := duration\<rparr>"

text \<open>
  The caller's \<open>params\<close> is an object on the heap, which \<open>makeRequest\<close> updates in place:
  a call through a reference leaves the new contents at that reference.
\<close>

type_synonym heap = "nat \<Rightarrow> jsobj"

definition makeRequest_at :: "runtime \<Rightarrow> env \<Rightarrow> StockAPI \<Rightarrow> heap \<Rightarrow> nat \<Rightarrow> outcome \<times> heap" where
  "makeRequest_at rt env st h r =
     (let out = makeRequest rt env st (h r) in (out, h(r := params_after out)))"

subsection \<open>The derived operations\<close>

text \<open>
  Each operation builds a fresh \<open>params\<close> object, awaits \<open>makeRequest\<close> and reshapes the
  document returned. An error thrown while reshaping is not logged.
\<close>

definition then_return :: "outcome \<Rightarrow> (jsval \<Rightarrow> error + jsval) \<Rightarrow> outcome" where
  "then_return out f = (case result out of Inl e \<Rightarrow> out | Inr d \<Rightarrow> out\<lparr>result := f d\<rparr>)"

definition on_prop :: "jsval \<Rightarrow> string \<Rightarrow> (jsval \<Rightarrow> error + jsval) \<Rightarrow> error + jsval" where
  "on_prop d k f = (case get_prop d k of Inl e \<Rightarrow> Inl e | Inr v \<Rightarrow> f v)"

text \<open>A parameter with a default value takes it when the argument is \<open>undefined\<close>.\<close>

definition default_arg :: "jsval \<Rightarrow> jsval \<Rightarrow> jsval" where
  "default_arg v d = (if v = JUndefined then d else v)"

definition parseGlobalQuote :: "runtime \<Rightarrow> jsval \<Rightarrow> error + jsval" where
  "parseGlobalQuote rt quoteData =
     (if nullish quoteData then Inl TypeError
      else Inr (JObj
        [(''symbol'', jsget quoteData ''01. symbol''),
         (''open'', parseFloat_val rt (jsget quoteData ''02. open'')),
         (''high'', parseFloat_val rt (jsget quoteData ''03. high'')),
         (''low'', parseFloat_val rt (jsget quoteData ''04. low'')),
         (''price'', parseFloat_val rt (jsget quoteData ''05. price'')),
         (''volume'', parseInt_val rt (jsget quoteData ''06. volume'')),
         (''latestTradingDay'', jsget quoteData ''07. latest trading day''),
         (''previousClose'', parseFloat_val rt (jsget quoteData ''08. previous close'')),
         (''change'', parseFloat_val rt (jsget quoteData ''09. change'')),
         (''changePercent'', jsget quoteData ''10. change percent'')]))"

definition getGlobalQuote :: "runtime \<Rightarrow> env \<Rightarrow> StockAPI \<Rightarrow> jsval \<Rightarrow> outcome" where
  "getGlobalQuote rt env st symbol =
     then_return
       (makeRequest rt env st [(''function'', JStr ''GLOBAL_QUOTE''), (''symbol'', symbol)])
       (\<lambda>d. on_prop d ''Global Quote''
          (\<lambda>q. if truthy q then parseGlobalQuote rt q else Inr JNull))"

definition daily_bar :: "runtime \<Rightarrow> string \<times> jsval \<Rightarrow> jsval" where
  "daily_bar rt entry =
     (let date = fst entry; values = snd entry in
      JObj
        [(''date'', JStr date),
         (''open'', parseFloat_val rt (jsget values ''1. open'')),
         (''high'', parseFloat_val rt (jsget values ''2. high'')),
         (''low'', parseFloat_val rt (jsget values ''3. low'')),
         (''close'', parseFloat_val rt (jsget values ''4. close'')),
         (''volume'', parseInt_val rt (jsget values ''5. volume''))])"

definition by_date :: "runtime \<Rightarrow> jsval \<Rightarrow> jsval \<Rightarrow> jsnum" where
  "by_date rt a b = date_diff rt (jsget a ''date'') (jsget b ''date'')"

definition parseTimeSeries :: "runtime \<Rightarrow> jsval \<Rightarrow> error + jsval" where
  "parseTimeSeries rt timeSeriesData =
     (case Object_entries timeSeriesData of
        Inl e \<Rightarrow> Inl e
      | Inr entries \<Rightarrow>
          if list_ex (\<lambda>entry. nullish (snd entry)) entries then Inl TypeError
          else Inr (JArr (Array_sort (by_date rt) (map (daily_bar rt) entries))))"

definition getTimeSeriesDaily :: "runtime \<Rightarrow> env \<Rightarrow> StockAPI \<Rightarrow> jsval \<Rightarrow> jsval \<Rightarrow> outcome" where
  "getTimeSeriesDaily rt env st symbol outputsize =
     then_return
       (makeRequest rt env st
          [(''function'', JStr ''TIME_SERIES_DAILY''), (''symbol'', symbol),
           (''outputsize'', default_arg outputsize (JStr ''compact''))])
       (\<lambda>d. on_prop d ''Time Series (Daily)''
          (\<lambda>ts. if truthy ts then parseTimeSeries rt ts else Inr JNull))"

definition adjusted_bar :: "runtime \<Rightarrow> string \<times> jsval \<Rightarrow> jsval" where
  "adjusted_bar rt entry =
     (let date = fst entry; values = snd entry in
      JObj
        [(''date'', JStr date),
         (''open'', parseFloat_val rt (jsget values ''1. open'')),
         (''high'', parseFloat_val rt (jsget values ''2. high'')),
         (''low'', parseFloat_val rt (jsget values ''3. low'')),
         (''close'', parseFloat_val rt (jsget values ''4. close'')),
         (''adjustedClose'', parseFloat_val rt (jsget values ''5. adjusted close'')),
         (''volume'', parseInt_val rt (jsget values ''6. volume'')),
         (''dividendAmount'', parseFloat_val rt (jsget values ''7. dividend amount'')),
         (''splitCoefficient'', parseFloat_val rt (jsget values ''8. split coefficient''))])"

definition parseTimeSeriesAdjusted :: "runtime \<Rightarrow> jsval \<Rightarrow> error + jsval" where
  "parseTimeSeriesAdjusted rt timeSeriesData =
     (case Object_entries timeSeriesData of
        Inl e \<Rightarrow> Inl e
      | Inr entries \<Rightarrow>
          if list_ex (\<lambda>entry. nullish (snd entry)) entries then Inl TypeError
          else Inr (JArr (Array_sort (by_date rt) (map (adjusted_bar rt) entries))))"

definition getTimeSeriesDailyAdjusted ::
  "runtime \<Rightarrow> env \<Rightarrow> StockAPI \<Rightarrow> jsval \<Rightarrow> jsval \<Rightarrow> outcome" where
  "getTimeSeriesDailyAdjusted rt env st symbol outputsize =
     then_return
       (makeRequest rt env st
          [(''function'', JStr ''TIME_SERIES_DAILY_ADJUSTED''), (''symbol'', symbol),
           (''outputsize'', default_arg outputsize (JStr ''compact''))])
       (\<lambda>d. on_prop d ''Time Series (Daily)''
          (\<lambda>ts. if truthy ts then parseTimeSeriesAdjusted rt ts else Inr JNull))"

definition symbol_match :: "runtime \<Rightarrow> jsval \<Rightarrow> jsval" where
  "symbol_match rt match =
     JObj
       [(''symbol'', jsget match ''1. symbol''),
        (''name'', jsget match ''2. name''),
        (''type'', jsget match ''3. type''),
        (''region'', jsget match ''4. region''),
        (''marketOpen'', jsget match ''5. marketOpen''),
        (''marketClose'', jsget match ''6. marketClose''),
        (''timezone'', jsget match ''7. timezone''),
        (''currency'', jsget match ''8. currency''),
        (''matchScore'', parseFloat_val rt (jsget match ''9. matchScore''))]"

text \<open>\<open>matches.map(...)\<close>: only an array has the method \<open>map\<close>.\<close>

definition parseSymbolSearch :: "runtime \<Rightarrow> jsval \<Rightarrow> error + jsval" where
  "parseSymbolSearch rt matches =
     (case matches of
        JArr xs \<Rightarrow>
          if list_ex nullish xs then Inl TypeError else Inr (JArr (map (symbol_match rt) xs))
      | _ \<Rightarrow> Inl TypeError)"

definition symbolSearch :: "runtime \<Rightarrow> env \<Rightarrow> StockAPI \<Rightarrow> jsval \<Rightarrow> outcome" where
  "symbolSearch rt env st keywords =
     then_return
       (makeRequest rt env st [(''function'', JStr ''SYMBOL_SEARCH''), (''keywords'', keywords)])
       (\<lambda>d. on_prop d ''bestMatches''
          (\<lambda>m. if truthy m then parseSymbolSearch rt m else Inr (JArr [])))"

definition getCompanyOverview :: "runtime \<Rightarrow> env \<Rightarrow> StockAPI \<Rightarrow> jsval \<Rightarrow> outcome" where
  "getCompanyOverview rt env st symbol =
     then_return
       (makeRequest rt env st [(''function'', JStr ''OVERVIEW''), (''symbol'', symbol)])
       (\<lambda>d. case Object_keys d of
               Inl e \<Rightarrow> Inl e
             | Inr ks \<Rightarrow> Inr (if length ks > 0 then d else JNull))"

definition getMarketStatus :: "runtime \<Rightarrow> env \<Rightarrow> StockAPI \<Rightarrow> outcome" where
  "getMarketStatus rt env st =
     then_return
       (makeRequest rt env st [(''function'', JStr ''MARKET_STATUS'')])
       (\<lambda>d. on_prop d ''markets'' (\<lambda>m. Inr (js_or m (JArr []))))"

definition getMarketMovers :: "runtime \<Rightarrow> env \<Rightarrow> StockAPI \<Rightarrow> jsval \<Rightarrow> outcome" where
  "getMarketMovers rt env st listType0 =
     (let listType = default_arg listType0 (JStr ''active'');
          functionName =
            (if listType = JStr ''gainers'' then ''TOP_GAINERS_LOSERS''
             else if listType = JStr ''losers'' then ''TOP_GAINERS_LOSERS''
             else ''TOP_GAINERS_LOSERS'')
      in then_return
           (makeRequest rt env st [(''function'', JStr functionName)])
           (\<lambda>d. if listType = JStr ''gainers'' then
                   on_prop d ''top_gainers'' (\<lambda>v. Inr (js_or v (JArr [])))
                 else if listType = JStr ''losers'' then
                   on_prop d ''top_losers'' (\<lambda>v. Inr (js_or v (JArr [])))
                 else on_prop d ''most_actively_traded'' (\<lambda>v. Inr (js_or v (JArr [])))))"

definition parseExchangeRate :: "runtime \<Rightarrow> jsval \<Rightarrow> error + jsval" where
  "parseExchangeRate rt rateData =
     (if nullish rateData then Inl TypeError
      else Inr (JObj
        [(''fromCurrency'', jsget rateData ''1. From_Currency Code''),
         (''fromName'', jsget rateData ''2. From_Currency Name''),
         (''toCurrency'', jsget rateData ''3. To_Currency Code''),
         (''toName'', jsget rateData ''4. To_Currency Name''),
         (''exchangeRate'', parseFloat_val rt (jsget rateData ''5. Exchange Rate'')),
         (''lastRefreshed'', jsget rateData ''6. Last Refreshed''),
         (''timeZone'', jsget rateData ''7. Time Zone''),
         (''bidPrice'', parseFloat_val rt (jsget rateData ''8. Bid Price'')),
         (''askPrice'', parseFloat_val rt (jsget rateData ''9. Ask Price''))]))"

definition getExchangeRate :: "runtime \<Rightarrow> env \<Rightarrow> StockAPI \<Rightarrow> jsval \<Rightarrow> jsval \<Rightarrow> outcome" where
  "getExchangeRate rt env st fromCurrency toCurrency =
     then_return
       (makeRequest rt env st
          [(''function'', JStr ''CURRENCY_EXCHANGE_RATE''), (''from_currency'', fromCurrency),
           (''to_currency'', toCurrency)])
       (\<lambda>d. on_prop d ''Realtime Currency Exchange Rate''
          (\<lambda>r. if truthy r then parseExchangeRate rt r else Inr JNull))"

definition getSMA ::
  "runtime \<Rightarrow> env \<Rightarrow> StockAPI \<Rightarrow> jsval \<Rightarrow> jsval \<Rightarrow> jsval \<Rightarrow> jsval \<Rightarrow> outcome" where
  "getSMA rt env st symbol interval timePeriod seriesType =
     then_return
       (makeRequest rt env st
          [(''function'', JStr ''SMA''), (''symbol'', symbol),
           (''interval'', default_arg interval (JStr ''daily'')),
           (''time_period'', default_arg timePeriod (JNum (Num 20))),
           (''series_type'', default_arg seriesType (JStr ''close''))])
       (\<lambda>d. on_prop d ''Technical Analysis: SMA'' (\<lambda>v. Inr (js_or v (JObj []))))"

definition getRSI ::
  "runtime \<Rightarrow> env \<Rightarrow> StockAPI \<Rightarrow> jsval \<Rightarrow> jsval \<Rightarrow> jsval \<Rightarrow> jsval \<Rightarrow> outcome" where
  "getRSI rt env st symbol interval timePeriod seriesType =
     then_return
       (makeRequest rt env st
          [(''function'', JStr ''RSI''), (''symbol'', symbol),
           (''interval'', default_arg interval (JStr ''daily'')),
           (''time_period'', default_arg timePeriod (JNum (Num 14))),
           (''series_type'', default_arg seriesType (JStr ''close''))])
       (\<lambda>d. on_prop d ''Technical Analysis: RSI'' (\<lambda>v. Inr (js_or v (JObj []))))"

definition getMACD :: "runtime \<Rightarrow> env \<Rightarrow> StockAPI \<Rightarrow> jsval \<Rightarrow> jsval \<Rightarrow> jsval \<Rightarrow> outcome" where
  "getMACD rt env st symbol interval seriesType =
     then_return
       (makeRequest rt env st
          [(''function'', JStr ''MACD''), (''symbol'', symbol),
           (''interval'', default_arg interval (JStr ''daily'')),
           (''series_type'', default_arg seriesType (JStr ''close''))])
       (\<lambda>d. on_prop d ''Technical Analysis: MACD'' (\<lambda>v. Inr (js_or v (JObj []))))"

subsection \<open>A runtime and a clock for concrete runs\<close>

text \<open>
  \<open>sample_runtime\<close> renders an integer in decimal, as JavaScript does below \<open>10^21\<close>
  (the concrete runs below render no other number), and reads a date of the form
  \<open>YYYY-MM-DD\<close> as midnight UTC of that day, every other string as an Invalid Date.
\<close>

definition render_integer :: "rat \<Rightarrow> string" where
  "render_integer q =
     (let n = \<lfloor>q\<rfloor> in if n < 0 then CHR ''-'' # string_of_nat (nat (- n)) else string_of_nat (nat n))"

definition leap_year :: "nat \<Rightarrow> bool" where
  "leap_year y = (y mod 4 = 0 \<and> (y mod 100 \<noteq> 0 \<or> y mod 400 = 0))"

definition days_in_month :: "nat \<Rightarrow> nat \<Rightarrow> nat" where
  "days_in_month y m =
     (if m = 2 then (if leap_year y then 29 else 28)
      else if m = 4 \<or> m = 6 \<or> m = 9 \<or> m = 11 then 30 else 31)"

definition days_from_civil :: "nat \<Rightarrow> nat \<Rightarrow> nat \<Rightarrow> int" where
  "days_from_civil y m d =
     (let y' = (if m \<le> 2 then int y - 1 else int y);
          era = y' div 400;
          yoe = y' - era * 400;
          mp = (if m > 2 then int m - 3 else int m + 9);
          doy = (153 * mp + 2) div 5 + int d - 1;
          doe = yoe * 365 + yoe div 4 - yoe div 100 + doy
      in era * 146097 + doe - 719468)"

definition iso_date :: "string \<Rightarrow> int option" where
  "iso_date s =
     (if length s = 10 \<and> s ! 4 = CHR ''-'' \<and> s ! 7 = CHR ''-''
         \<and> list_all is_digit (take 4 s) \<and> list_all is_digit (take 2 (drop 5 s))
         \<and> list_all is_digit (drop 8 s)
      then
        (let y = digits_val 10 (take 4 s); m = digits_val 10 (take 2 (drop 5 s));
             d = digits_val 10 (drop 8 s)
         in if 1 \<le> m \<and> m \<le> 12 \<and> 1 \<le> d \<and> d \<le> days_in_month y m
            then Some (days_from_civil y m d * 86400000) else None)
      else None)"

definition sample_runtime :: runtime where
  "sample_runtime = \<lparr>NumberToString = render_integer, DateParse = iso_date\<rparr>"

text \<open>The network calls among the effects of a call.\<close>

fun fetches :: "effect list \<Rightarrow> string list" where
  "fetches [] = []"
| "fetches (Fetch url # es) = url # fetches es"
| "fetches (e # es) = fetches es"

fun warnings :: "effect list \<Rightarrow> jsval list" where
  "warnings [] = []"
| "warnings (Warn s v # es) = v # warnings es"
| "warnings (e # es) = warnings es"

section \<open>Notions used to state the properties\<close>

text \<open>
  The test of \<open>makeRequest\<close> on the cache: is there an entry for the key that is still
  young enough?
\<close>

definition usable :: "env \<Rightarrow> StockAPI \<Rightarrow> string \<Rightarrow> bool" where
  "usable env st k =
     (case cache st k of None \<Rightarrow> False
      | Some c \<Rightarrow> now_check env - timestamp c < cacheDuration st)"

text \<open>The outcome of a call that went to the network and stored the document \<open>d\<close>.\<close>

definition stored :: "runtime \<Rightarrow> env \<Rightarrow> StockAPI \<Rightarrow> jsobj \<Rightarrow> string \<Rightarrow> jsval \<Rightarrow> outcome" where
  "stored rt env st p k d =
     \<lparr>result = Inr d,
      state = st\<lparr>cache := (cache st)(k \<mapsto> \<lparr>data = d, timestamp = now_store env\<rparr>)\<rparr>,
      params_after = set_prop p ''apikey'' (JStr (apiKey st)),
      effects = Fetch (request_url rt st p) #
        (if truthy (jsget d ''Note'') then [Warn ''API rate limit note:'' (jsget d ''Note'')]
         else [])\<rparr>"

text \<open>
  A cache is free of the credential when each of its keys serialises an object that has
  no \<open>apikey\<close> property.
\<close>

definition credential_free :: "runtime \<Rightarrow> (string \<rightharpoonup> cache_entry) \<Rightarrow> bool" where
  "credential_free rt c =
     (\<forall>k \<in> dom c. \<exists>p. ''apikey'' \<notin> fst ` set p \<and> k = JSON_stringify rt p)"

text \<open>The top-level keys the derived operations look for in a document.\<close>

definition recognized_keys :: "string list" where
  "recognized_keys =
     [''Global Quote'', ''Time Series (Daily)'', ''bestMatches'', ''markets'', ''top_gainers'',
      ''top_losers'', ''most_actively_traded'', ''Realtime Currency Exchange Rate'',
      ''Technical Analysis: SMA'', ''Technical Analysis: RSI'', ''Technical Analysis: MACD'']"

text \<open>The time value of a bar's date, as the comparison function of the sort reads it.\<close>

definition bar_date :: "runtime \<Rightarrow> jsval \<Rightarrow> int option" where
  "bar_date rt bar = new_Date rt (jsget bar ''date'')"

subsection \<open>Concrete requests, documents and servers\<close>

text \<open>
  \<open>server body t1 t2\<close> answers every request with status 200 and the document \<open>body\<close>;
  the clock reads \<open>t1\<close> at the cache check and \<open>t2\<close> at the store.
\<close>

definition server :: "jsval \<Rightarrow> int \<Rightarrow> int \<Rightarrow> env" where
  "server body t1 t2 = \<lparr>now_check = t1, fetch = (\<lambda>url. Response 200 (Some body)), now_store = t2\<rparr>"

definition quote_params :: jsobj where
  "quote_params = [(''function'', JStr ''GLOBAL_QUOTE''), (''symbol'', JStr ''IBM'')]"

definition quote_body :: jsval where
  "quote_body =
     JObj [(''Global Quote'',
       JObj [(''01. symbol'', JStr ''IBM''), (''02. open'', JStr ''138.50''),
             (''05. price'', JStr ''139.12''), (''06. volume'', JStr ''3456789'')])]"

definition error_body :: jsval where
  "error_body = JObj [(''Error Message'', JStr ''Invalid API call.'')]"

definition empty_error_body :: jsval where
  "empty_error_body = JObj [(''Error Message'', JStr '''')]"

definition note_body :: jsval where
  "note_body =
     JObj [(''Note'', JStr ''Thank you for using Alpha Vantage! Our standard API rate limit is 25 requests per day.'')]"

definition empty_note_body :: jsval where
  "empty_note_body = JObj [(''Note'', JStr '''')]"

definition movers_body :: jsval where
  "movers_body =
     JObj [(''top_gainers'', JArr [JObj [(''ticker'', JStr ''AAA'')]]),
           (''top_losers'', JArr [JObj [(''ticker'', JStr ''BBB'')], JObj [(''ticker'', JStr ''CCC'')]]),
           (''most_actively_traded'', JArr [JObj [(''ticker'', JStr ''DDD'')]])]"

definition information_body :: jsval where
  "information_body = JObj [(''Information'', JStr ''Please retry later.'')]"

definition series_entries :: jsobj where
  "series_entries =
     [(''2024-03-05'', JObj [(''1. open'', JStr ''10.5''), (''5. volume'', JStr ''100'')]),
      (''2024-01-15'', JObj [(''1. open'', JStr ''9.25''), (''5. volume'', JStr ''300'')]),
      (''2024-02-29'', JObj [(''1. open'', JStr ''11''), (''5. volume'', JStr ''200'')])]"

definition series_body :: jsval where
  "series_body = JObj [(''Time Series (Daily)'', JObj series_entries)]"

text \<open>A first call on a new object, which goes to the network and stores the answer at time 1040.\<close>

definition first_quote_call :: outcome where
  "first_quote_call =
     makeRequest sample_runtime (server quote_body 1000 1040) (constructor ''KEY'') quote_params"

text \<open>
  A heap whose objects all hold the parameters of a quote request, and two calls in a
  row that pass the object at reference \<open>0\<close>.
\<close>

definition one_object :: heap where
  "one_object = (\<lambda>r. quote_params)"

definition reuse_first :: "outcome \<times> heap" where
  "reuse_first =
     makeRequest_at sample_runtime (server quote_body 1000 1040) (constructor ''KEY'') one_object 0"

definition reuse_second :: "outcome \<times> heap" where
  "reuse_second =
     makeRequest_at sample_runtime (server quote_body 1040 1080) (state (fst reuse_first))
       (snd reuse_first) 0"

section \<open>Properties of \<open>makeRequest\<close>\<close>

lemma makeRequest_hit:
  assumes "cache st (JSON_stringify rt p) = Some c"
    and "now_check env - timestamp c < cacheDuration st"
  shows "makeRequest rt env st p =
           \<lparr>result = Inr (data c), state = st, params_after = p, effects = []\<rparr>"
  using assms by (simp add: makeRequest_def)

lemma makeRequest_miss:
  assumes "\<not> usable env st (JSON_stringify rt p)"
  shows "makeRequest rt env st p = fetch_and_store rt env st p (JSON_stringify rt p)"
  using assms by (simp add: makeRequest_def usable_def split: option.splits)

lemma fetches_thrown [simp]: "fetches (effects (thrown st p url e)) = [url]"
  by (simp add: thrown_def)

lemma state_thrown [simp]: "state (thrown st p url e) = st"
  by (simp add: thrown_def)

lemma params_after_thrown [simp]: "params_after (thrown st p url e) = p"
  by (simp add: thrown_def)

lemma result_thrown [simp]: "result (thrown st p url e) = Inl e"
  by (simp add: thrown_def)

lemma fetches_fetch_and_store:
  "fetches (effects (fetch_and_store rt env st p k)) = [request_url rt st p]"
  by (simp add: fetch_and_store_def request_url_def Let_def
      split: fetch_result.splits option.splits sum.splits)

lemma params_after_fetch_and_store:
  "params_after (fetch_and_store rt env st p k) = set_prop p ''apikey'' (JStr (apiKey st))"
  by (simp add: fetch_and_store_def Let_def
      split: fetch_result.splits option.splits sum.splits)

lemma fetch_and_store_success:
  assumes "fetch env (request_url rt st p) = Response status (Some d)"
    and "ok status"
    and "get_prop d ''Error Message'' = Inr m"
    and "\<not> truthy m"
  shows "fetch_and_store rt env st p k =
           \<lparr>result = Inr d,
            state = st\<lparr>cache := (cache st)(k \<mapsto> \<lparr>data = d, timestamp = now_store env\<rparr>)\<rparr>,
            params_after = set_prop p ''apikey'' (JStr (apiKey st)),
            effects = Fetch (request_url rt st p) #
              (if truthy (jsget d ''Note'') then [Warn ''API rate limit note:'' (jsget d ''Note'')]
               else [])\<rparr>"
  using assms by (simp add: fetch_and_store_def request_url_def Let_def)

lemma fetch_and_store_error:
  assumes "fetch env (request_url rt st p) = Response status (Some d)"
    and "ok status"
    and "get_prop d ''Error Message'' = Inr m"
    and "truthy m"
  shows "fetch_and_store rt env st p k =
           thrown st (set_prop p ''apikey'' (JStr (apiKey st))) (request_url rt st p)
             (Error (ToString rt m))"
  using assms by (simp add: fetch_and_store_def request_url_def Let_def)

lemma fetch_and_store_cases:
  "(\<exists>e. fetch_and_store rt env st p k =
          thrown st (set_prop p ''apikey'' (JStr (apiKey st))) (request_url rt st p) e)
   \<or> (\<exists>d. fetch_and_store rt env st p k = stored rt env st p k d)"
  unfolding fetch_and_store_def Let_def request_url_def [symmetric]
  by (auto simp add: stored_def split: fetch_result.splits option.splits sum.splits)

lemma fetch_and_store_result_Inr:
  assumes "result (fetch_and_store rt env st p k) = Inr d"
  shows "fetch_and_store rt env st p k = stored rt env st p k d"
  using assms fetch_and_store_cases [of rt env st p k]
  by (auto simp add: stored_def)

lemma cacheDuration_makeRequest:
  "cacheDuration (state (makeRequest rt env st p)) = cacheDuration st"
  by (simp add: makeRequest_def fetch_and_store_def Let_def
      split: fetch_result.splits option.splits sum.splits)

lemma dom_cache_fetch_and_store:
  "dom (cache (state (fetch_and_store rt env st p k))) \<subseteq> insert k (dom (cache st))"
  by (auto simp add: fetch_and_store_def Let_def
      split: fetch_result.splits option.splits sum.splits if_splits)


lemma fetches_makeRequest_le: "length (fetches (effects (makeRequest rt env st p))) \<le> 1"
  by (simp add: makeRequest_def Let_def fetches_fetch_and_store split: option.splits)

subsection \<open>Cache hits\<close>

text \<open>
  C1 (as amended). If a valid (non-expired) cache entry exists for the serialization of
  \<open>params\<close>, \<open>makeRequest\<close> returns that entry's payload, changes nothing and makes no
  network call. If a call returns a document, and a second call with the same
  serialization follows before the entry expires (at once after a hit, less than
  \<open>cacheDuration\<close> after the store otherwise), then the second call is a cache hit that
  returns the same document, and the two calls make at most one network call.
\<close>

theorem request_cache_hit:
  "(cache st (JSON_stringify rt p) = Some c \<and> now_check env - timestamp c < cacheDuration st
      \<longrightarrow> makeRequest rt env st p =
            \<lparr>result = Inr (data c), state = st, params_after = p, effects = []\<rparr>)
   \<and> (JSON_stringify rt p2 = JSON_stringify rt p
        \<and> result (makeRequest rt env st p) = Inr d
        \<and> (if usable env st (JSON_stringify rt p) then now_check env2 \<le> now_check env
            else now_check env2 - now_store env < cacheDuration st)
      \<longrightarrow> makeRequest rt env2 (state (makeRequest rt env st p)) p2 =
            \<lparr>result = Inr d, state = state (makeRequest rt env st p), params_after = p2,
             effects = []\<rparr>
          \<and> length (fetches (effects (makeRequest rt env st p))
                     @ fetches (effects (makeRequest rt env2 (state (makeRequest rt env st p)) p2)))
              \<le> 1)"
proof -
  let ?k = "JSON_stringify rt p"
  let ?out = "makeRequest rt env st p"
  have hit: "makeRequest rt env st p =
      \<lparr>result = Inr (data c), state = st, params_after = p, effects = []\<rparr>"
    if "cache st ?k = Some c \<and> now_check env - timestamp c < cacheDuration st"
    using that by (simp add: makeRequest_hit)
  have second: "makeRequest rt env2 (state ?out) p2 =
      \<lparr>result = Inr d, state = state ?out, params_after = p2, effects = []\<rparr>"
    if a: "JSON_stringify rt p2 = ?k \<and> result ?out = Inr d
        \<and> (if usable env st ?k then now_check env2 \<le> now_check env
            else now_check env2 - now_store env < cacheDuration st)"
  proof (cases "usable env st ?k")
    case True
    then obtain c' where c': "cache st ?k = Some c'"
      and fresh: "now_check env - timestamp c' < cacheDuration st"
      by (auto simp add: usable_def split: option.splits)
    have out: "?out = \<lparr>result = Inr (data c'), state = st, params_after = p, effects = []\<rparr>"
      using c' fresh by (rule makeRequest_hit)
    with a have d: "data c' = d" by simp
    from a True have "now_check env2 \<le> now_check env" by simp
    with fresh have "now_check env2 - timestamp c' < cacheDuration st" by simp
    with c' a have "makeRequest rt env2 st p2 =
        \<lparr>result = Inr (data c'), state = st, params_after = p2, effects = []\<rparr>"
      by (simp add: makeRequest_hit)
    with out d show ?thesis by simp
  next
    case False
    then have out: "?out = fetch_and_store rt env st p ?k" by (rule makeRequest_miss)
    with a have "?out = stored rt env st p ?k d"
      by (simp add: fetch_and_store_result_Inr)
    then have st': "cache (state ?out) ?k = Some \<lparr>data = d, timestamp = now_store env\<rparr>"
      and dur: "cacheDuration (state ?out) = cacheDuration st"
      by (simp_all add: stored_def)
    from a False have "now_check env2 - now_store env < cacheDuration st" by simp
    with st' dur a
    have "makeRequest rt env2 (state ?out) p2 =
        \<lparr>result = Inr (data \<lparr>data = d, timestamp = now_store env\<rparr>), state = state ?out,
         params_after = p2, effects = []\<rparr>"
      by (intro makeRequest_hit) simp_all
    then show ?thesis by simp
  qed
  have one: "length (fetches (effects ?out)) \<le> 1" by (rule fetches_makeRequest_le)
  show ?thesis
  proof (intro conjI impI)
    assume "cache st ?k = Some c \<and> now_check env - timestamp c < cacheDuration st"
    then show "makeRequest rt env st p =
        \<lparr>result = Inr (data c), state = st, params_after = p, effects = []\<rparr>"
      by (rule hit)
  next
    assume a: "JSON_stringify rt p2 = ?k \<and> result ?out = Inr d
        \<and> (if usable env st ?k then now_check env2 \<le> now_check env
            else now_check env2 - now_store env < cacheDuration st)"
    then show "makeRequest rt env2 (state ?out) p2 =
        \<lparr>result = Inr d, state = state ?out, params_after = p2, effects = []\<rparr>"
      by (rule second)
  next
    assume a: "JSON_stringify rt p2 = ?k \<and> result ?out = Inr d
        \<and> (if usable env st ?k then now_check env2 \<le> now_check env
            else now_check env2 - now_store env < cacheDuration st)"
    then have "makeRequest rt env2 (state ?out) p2 =
        \<lparr>result = Inr d, state = state ?out, params_after = p2, effects = []\<rparr>"
      by (rule second)
    with one show "length (fetches (effects ?out)
        @ fetches (effects (makeRequest rt env2 (state ?out) p2))) \<le> 1"
      by simp
  qed
qed

theorem request_cache_hit_witness:
  "result first_quote_call = Inr quote_body
   \<and> makeRequest sample_runtime (server quote_body 1040 1080) (state first_quote_call) quote_params =
       \<lparr>result = Inr quote_body, state = state first_quote_call, params_after = quote_params,
        effects = []\<rparr>
   \<and> length (fetches (effects first_quote_call)
        @ fetches (effects (makeRequest sample_runtime (server quote_body 1040 1080)
             (state first_quote_call) quote_params))) \<le> 1"
proof -
  have r: "result first_quote_call = Inr quote_body"
    by (simp add: first_quote_call_def makeRequest_def constructor_def fetch_and_store_def
        server_def ok_def quote_body_def Let_def)
  have u: "\<not> usable (server quote_body 1000 1040) (constructor ''KEY'')
      (JSON_stringify sample_runtime quote_params)"
    by (simp add: usable_def constructor_def)
  have t: "now_check (server quote_body 1040 1080) - now_store (server quote_body 1000 1040)
      < cacheDuration (constructor ''KEY'')"
    by (simp add: server_def constructor_def)
  from r u t
    request_cache_hit [of "constructor ''KEY''" sample_runtime quote_params c
      "server quote_body 1000 1040" quote_params quote_body "server quote_body 1040 1080"]
  show ?thesis
    unfolding first_quote_call_def by simp
qed

text \<open>
  Two calls in immediate succession with the same serialization make two network calls
  when the first call fails: nothing is cached, and the second call fetches again.
\<close>

theorem request_twice_counterexample:
  "length (fetches (effects (makeRequest sample_runtime (server error_body 1000 1040) (constructor ''KEY'') quote_params))
      @ fetches (effects (makeRequest sample_runtime (server error_body 1040 1080)
           (state (makeRequest sample_runtime (server error_body 1000 1040) (constructor ''KEY'') quote_params))
           quote_params))) = 2"
  by (simp add: makeRequest_def constructor_def JSON_stringify_def server_def quote_params_def fetch_and_store_def ok_def error_body_def thrown_def Let_def)

subsection \<open>Error documents and advisory notes\<close>

lemma makeRequest_error:
  assumes "\<not> usable env st (JSON_stringify rt p)"
    and "fetch env (request_url rt st p) = Response status (Some d)"
    and "ok status"
    and "get_prop d ''Error Message'' = Inr m"
    and "truthy m"
  shows "makeRequest rt env st p =
           thrown st (set_prop p ''apikey'' (JStr (apiKey st))) (request_url rt st p)
             (Error (ToString rt m))"
  using assms by (simp add: makeRequest_miss fetch_and_store_error)

lemma makeRequest_success:
  assumes "\<not> usable env st (JSON_stringify rt p)"
    and "fetch env (request_url rt st p) = Response status (Some d)"
    and "ok status"
    and "get_prop d ''Error Message'' = Inr m"
    and "\<not> truthy m"
  shows "makeRequest rt env st p = stored rt env st p (JSON_stringify rt p) d"
  using assms by (simp add: makeRequest_miss fetch_and_store_success stored_def)

text \<open>
  C2 (as amended). When the answer to a request is a document whose \<open>Error Message\<close> field
  is a non-empty string \<open>X\<close>, \<open>makeRequest\<close> fails with an error whose message is \<open>X\<close>
  itself, the failure is logged, and the object's state, so its cache, is unchanged.
\<close>

theorem error_message_thrown:
  assumes "\<not> usable env st (JSON_stringify rt p)"
    and "fetch env (request_url rt st p) = Response status (Some d)"
    and "ok status"
    and "get_prop d ''Error Message'' = Inr (JStr X)"
    and "X \<noteq> []"
  shows "result (makeRequest rt env st p) = Inl (Error X)
       \<and> state (makeRequest rt env st p) = st
       \<and> effects (makeRequest rt env st p) =
           [Fetch (request_url rt st p), ConsoleError ''API request failed:'' (Error X)]"
  using assms makeRequest_error [of env st rt p status d "JStr X"]
  by (simp add: thrown_def)

theorem error_message_thrown_witness:
  "result (makeRequest sample_runtime (server error_body 1000 1040) (constructor ''KEY'') quote_params)
     = Inl (Error ''Invalid API call.'')
   \<and> state (makeRequest sample_runtime (server error_body 1000 1040) (constructor ''KEY'') quote_params)
     = constructor ''KEY''"
  using error_message_thrown [of "server error_body 1000 1040" "constructor ''KEY''"
      sample_runtime quote_params 200 error_body "''Invalid API call.''"]
  by (simp add: usable_def constructor_def server_def ok_def error_body_def)

text \<open>
  The test on the field is a truthiness test: a document whose \<open>Error Message\<close> is the
  empty string is returned and cached like any other.
\<close>

theorem empty_error_message_counterexample:
  "result (makeRequest sample_runtime (server empty_error_body 1000 1040) (constructor ''KEY'') quote_params)
     = Inr empty_error_body
   \<and> cache (state (makeRequest sample_runtime (server empty_error_body 1000 1040)
         (constructor ''KEY'') quote_params)) (JSON_stringify sample_runtime quote_params)
     = Some \<lparr>data = empty_error_body, timestamp = 1040\<rparr>
   \<and> cache (constructor ''KEY'') (JSON_stringify sample_runtime quote_params) = None"
  by (simp add: makeRequest_def constructor_def fetch_and_store_def server_def ok_def
      empty_error_body_def Let_def)

text \<open>
  C7 (as amended). When the answer to a request is a document with no \<open>Error Message\<close>
  field, whose \<open>Note\<close> field is \<open>n\<close>, \<open>makeRequest\<close> does not fail: it returns the document
  and stores it under the cache key with the time of the store. The only trace of the note
  is one logged warning, written when \<open>n\<close> is truthy; a falsy note is not logged.
\<close>

theorem note_is_not_an_error:
  assumes "\<not> usable env st (JSON_stringify rt p)"
    and "fetch env (request_url rt st p) = Response status (Some d)"
    and "ok status"
    and "get_prop d ''Error Message'' = Inr JUndefined"
    and "get_prop d ''Note'' = Inr n"
  shows "result (makeRequest rt env st p) = Inr d
       \<and> state (makeRequest rt env st p) =
           st\<lparr>cache := (cache st)(JSON_stringify rt p \<mapsto> \<lparr>data = d, timestamp = now_store env\<rparr>)\<rparr>
       \<and> effects (makeRequest rt env st p) =
           Fetch (request_url rt st p) # (if truthy n then [Warn ''API rate limit note:'' n] else [])"
  using assms makeRequest_success [of env st rt p status d JUndefined]
  by (simp add: stored_def jsget_def)

theorem note_is_not_an_error_witness:
  "result (makeRequest sample_runtime (server note_body 1000 1040) (constructor ''KEY'') quote_params)
     = Inr note_body
   \<and> cache (state (makeRequest sample_runtime (server note_body 1000 1040) (constructor ''KEY'')
        quote_params)) (JSON_stringify sample_runtime quote_params)
     = Some \<lparr>data = note_body, timestamp = 1040\<rparr>
   \<and> warnings (effects (makeRequest sample_runtime (server note_body 1000 1040) (constructor ''KEY'')
        quote_params)) = [jsget note_body ''Note'']"
  using note_is_not_an_error [of "server note_body 1000 1040" "constructor ''KEY''"
      sample_runtime quote_params 200 note_body "jsget note_body ''Note''"]
  by (simp add: usable_def constructor_def server_def ok_def note_body_def jsget_def)

text \<open>A document whose \<open>Note\<close> is the empty string is returned with no warning logged.\<close>

theorem empty_note_counterexample:
  "result (makeRequest sample_runtime (server empty_note_body 1000 1040) (constructor ''KEY'') quote_params)
     = Inr empty_note_body
   \<and> warnings (effects (makeRequest sample_runtime (server empty_note_body 1000 1040)
        (constructor ''KEY'') quote_params)) = []"
  by (simp add: makeRequest_def constructor_def fetch_and_store_def server_def ok_def
      empty_note_body_def Let_def jsget_def)

subsection \<open>Expiry\<close>

lemma makeRequest_expired:
  assumes "\<not> usable env st (JSON_stringify rt p)"
  shows "fetches (effects (makeRequest rt env st p)) = [request_url rt st p]"
  using assms by (simp add: makeRequest_miss fetches_fetch_and_store)

lemma first_quote_call_cache:
  "cache (state first_quote_call) (JSON_stringify sample_runtime quote_params)
     = Some \<lparr>data = quote_body, timestamp = 1040\<rparr>"
  by (simp add: first_quote_call_def makeRequest_def constructor_def fetch_and_store_def
        server_def ok_def quote_body_def Let_def)

lemma first_quote_call_duration: "cacheDuration (state first_quote_call) = 300000"
  by (simp add: first_quote_call_def cacheDuration_makeRequest constructor_def)

text \<open>
  C3 (as amended). A cached entry is used exactly when \<open>now - storedAt < cacheDuration\<close>: then, and
  only then, the call returns the entry's payload without touching the network. So
  once the duration is \<open>0\<close> (which is what \<open>setCacheDuration(0)\<close> sets, and a request
  leaves the duration alone), every request made no earlier than the entry for its
  key was stored goes to the network; and so does a request made more than
  \<open>cacheDuration\<close> after the entry for its key was stored.
\<close>

theorem cache_entry_expiry:
  "(cache st (JSON_stringify rt p) = Some c \<longrightarrow>
      (makeRequest rt env st p =
         \<lparr>result = Inr (data c), state = st, params_after = p, effects = []\<rparr>)
      = (now_check env - timestamp c < cacheDuration st))
   \<and> cacheDuration (setCacheDuration st 0) = 0
   \<and> cache (setCacheDuration st 0) = cache st
   \<and> cacheDuration (state (makeRequest rt env st p)) = cacheDuration st
   \<and> (cacheDuration st = 0
        \<and> (\<forall>e. cache st (JSON_stringify rt p) = Some e \<longrightarrow> timestamp e \<le> now_check env)
      \<longrightarrow> fetches (effects (makeRequest rt env st p)) = [request_url rt st p])
   \<and> (cache st (JSON_stringify rt p) = Some c \<and> cacheDuration st < now_check env - timestamp c
      \<longrightarrow> fetches (effects (makeRequest rt env st p)) = [request_url rt st p])"
proof -
  let ?k = "JSON_stringify rt p"
  have iff: "(makeRequest rt env st p =
         \<lparr>result = Inr (data c), state = st, params_after = p, effects = []\<rparr>)
      = (now_check env - timestamp c < cacheDuration st)" if c: "cache st ?k = Some c"
  proof (cases "now_check env - timestamp c < cacheDuration st")
    case True
    with c show ?thesis by (simp add: makeRequest_hit)
  next
    case False
    with c have "\<not> usable env st ?k" by (simp add: usable_def)
    then have "fetches (effects (makeRequest rt env st p)) = [request_url rt st p]"
      by (rule makeRequest_expired)
    then have "makeRequest rt env st p \<noteq>
        \<lparr>result = Inr (data c), state = st, params_after = p, effects = []\<rparr>"
      by auto
    with False show ?thesis by simp
  qed
  have zero: "fetches (effects (makeRequest rt env st p)) = [request_url rt st p]"
    if "cacheDuration st = 0
        \<and> (\<forall>e. cache st ?k = Some e \<longrightarrow> timestamp e \<le> now_check env)"
  proof -
    from that have "\<not> usable env st ?k"
      by (auto simp add: usable_def split: option.splits)
    then show ?thesis by (rule makeRequest_expired)
  qed
  have late: "fetches (effects (makeRequest rt env st p)) = [request_url rt st p]"
    if "cache st ?k = Some c \<and> cacheDuration st < now_check env - timestamp c"
  proof -
    from that have "\<not> usable env st ?k" by (simp add: usable_def)
    then show ?thesis by (rule makeRequest_expired)
  qed
  show ?thesis
    using iff zero late
    by (simp add: setCacheDuration_def cacheDuration_makeRequest)
qed

theorem cache_entry_expiry_witness:
  "makeRequest sample_runtime (server quote_body 1040 1080) (state first_quote_call) quote_params =
      \<lparr>result = Inr quote_body, state = state first_quote_call, params_after = quote_params,
       effects = []\<rparr>
   \<and> fetches (effects (makeRequest sample_runtime (server quote_body 1040 1080)
        (setCacheDuration (state first_quote_call) 0) quote_params))
      = [request_url sample_runtime (setCacheDuration (state first_quote_call) 0) quote_params]
   \<and> fetches (effects (makeRequest sample_runtime (server quote_body 301041 301080)
        (state first_quote_call) quote_params))
      = [request_url sample_runtime (state first_quote_call) quote_params]"
proof -
  let ?e = "\<lparr>data = quote_body, timestamp = 1040\<rparr>"
  note c = first_quote_call_cache
  note d = first_quote_call_duration
  have c0: "cache (setCacheDuration (state first_quote_call) 0)
      (JSON_stringify sample_runtime quote_params) = Some ?e"
    using c by (simp add: setCacheDuration_def)
  have 1: "makeRequest sample_runtime (server quote_body 1040 1080) (state first_quote_call) quote_params =
      \<lparr>result = Inr quote_body, state = state first_quote_call, params_after = quote_params,
       effects = []\<rparr>"
    using cache_entry_expiry [of "state first_quote_call" sample_runtime quote_params ?e
        "server quote_body 1040 1080"] c d
    by (simp add: server_def)
  have 2: "fetches (effects (makeRequest sample_runtime (server quote_body 1040 1080)
        (setCacheDuration (state first_quote_call) 0) quote_params))
      = [request_url sample_runtime (setCacheDuration (state first_quote_call) 0) quote_params]"
    using cache_entry_expiry [of "setCacheDuration (state first_quote_call) 0" sample_runtime
        quote_params ?e "server quote_body 1040 1080"] c0
    by (simp add: server_def setCacheDuration_def)
  have 3: "fetches (effects (makeRequest sample_runtime (server quote_body 301041 301080)
        (state first_quote_call) quote_params))
      = [request_url sample_runtime (state first_quote_call) quote_params]"
    using cache_entry_expiry [of "state first_quote_call" sample_runtime quote_params ?e
        "server quote_body 301041 301080"] c d
    by (simp add: server_def)
  from 1 2 3 show ?thesis by simp
qed

text \<open>
  Without the condition on the clock the duration \<open>0\<close> does not keep a request from the
  cache: the entry stored at time 1040 is used by a request whose clock reads 1039,
  since \<open>1039 - 1040 < 0\<close>, and no network call is made.
\<close>

theorem zero_duration_clock_counterexample:
  "cacheDuration (setCacheDuration (state first_quote_call) 0) = 0
   \<and> cache (setCacheDuration (state first_quote_call) 0) (JSON_stringify sample_runtime quote_params)
       = Some \<lparr>data = quote_body, timestamp = 1040\<rparr>
   \<and> makeRequest sample_runtime (server quote_body 1039 1080)
         (setCacheDuration (state first_quote_call) 0) quote_params
       = \<lparr>result = Inr quote_body, state = setCacheDuration (state first_quote_call) 0,
          params_after = quote_params, effects = []\<rparr>
   \<and> fetches (effects (makeRequest sample_runtime (server quote_body 1039 1080)
         (setCacheDuration (state first_quote_call) 0) quote_params)) = []"
proof -
  have c: "cache (setCacheDuration (state first_quote_call) 0)
      (JSON_stringify sample_runtime quote_params) = Some \<lparr>data = quote_body, timestamp = 1040\<rparr>"
    using first_quote_call_cache by (simp add: setCacheDuration_def)
  have d: "cacheDuration (setCacheDuration (state first_quote_call) 0) = 0"
    by (simp add: setCacheDuration_def)
  have "now_check (server quote_body 1039 1080) - timestamp \<lparr>data = quote_body, timestamp = 1040\<rparr>
      < cacheDuration (setCacheDuration (state first_quote_call) 0)"
    by (simp add: d server_def)
  with c have "makeRequest sample_runtime (server quote_body 1039 1080)
         (setCacheDuration (state first_quote_call) 0) quote_params
       = \<lparr>result = Inr (data \<lparr>data = quote_body, timestamp = 1040\<rparr>),
          state = setCacheDuration (state first_quote_call) 0,
          params_after = quote_params, effects = []\<rparr>"
    by (rule makeRequest_hit)
  with c d show ?thesis by simp
qed

subsection \<open>The caller's object and the cache keys\<close>

lemma set_prop_absent: "k \<notin> fst ` set p \<Longrightarrow> set_prop p k v = p @ [(k, v)]"
  by (induction p) auto

lemma length_join_snoc:
  "length (join sep (xs @ [x])) = length (join sep xs) + (if xs = [] then 0 else length sep) + length x"
  by (induction sep xs rule: join.induct) auto

lemma JSON_stringify_longer:
  "length (JSON_stringify rt p) < length (JSON_stringify rt (p @ [(k, JStr s)]))"
  by (simp add: JSON_stringify_def length_join_snoc QuoteJSONString_def)

lemma params_after_miss:
  assumes "\<not> usable env st (JSON_stringify rt p)"
  shows "params_after (makeRequest rt env st p) = set_prop p ''apikey'' (JStr (apiKey st))"
  using assms by (simp add: makeRequest_miss params_after_fetch_and_store)

text \<open>
  C9. On a cache miss \<open>makeRequest\<close> writes the credential into the caller's object before
  the request is sent: an object that had no \<open>apikey\<close> property has it as its last property
  afterwards, whatever the outcome of the request. The object then serialises differently,
  so a second call with the same object uses another cache key than the first.
\<close>

theorem params_mutated_on_miss:
  assumes "\<not> usable env st (JSON_stringify rt (h r))"
    and "''apikey'' \<notin> fst ` set (h r)"
  shows "snd (makeRequest_at rt env st h r) r = h r @ [(''apikey'', JStr (apiKey st))]
       \<and> fetches (effects (fst (makeRequest_at rt env st h r))) = [request_url rt st (h r)]
       \<and> JSON_stringify rt (snd (makeRequest_at rt env st h r) r) \<noteq> JSON_stringify rt (h r)"
proof -
  have after: "snd (makeRequest_at rt env st h r) r = h r @ [(''apikey'', JStr (apiKey st))]"
    using assms by (simp add: makeRequest_at_def Let_def params_after_miss set_prop_absent)
  have "length (JSON_stringify rt (h r))
      < length (JSON_stringify rt (h r @ [(''apikey'', JStr (apiKey st))]))"
    by (rule JSON_stringify_longer)
  then have "JSON_stringify rt (h r @ [(''apikey'', JStr (apiKey st))]) \<noteq> JSON_stringify rt (h r)"
    by auto
  with after assms(1) show ?thesis
    by (simp add: makeRequest_at_def Let_def makeRequest_expired)
qed

theorem params_mutated_on_miss_witness:
  "snd (makeRequest_at sample_runtime (server quote_body 1000 1040) (constructor ''KEY'') one_object 0) 0
     = [(''function'', JStr ''GLOBAL_QUOTE''), (''symbol'', JStr ''IBM''), (''apikey'', JStr ''KEY'')]
   \<and> JSON_stringify sample_runtime
        (snd (makeRequest_at sample_runtime (server quote_body 1000 1040) (constructor ''KEY'')
           one_object 0) 0)
     \<noteq> JSON_stringify sample_runtime (one_object 0)"
proof -
  have u: "\<not> usable (server quote_body 1000 1040) (constructor ''KEY'')
      (JSON_stringify sample_runtime (one_object 0))"
    by (simp add: usable_def constructor_def)
  have a: "''apikey'' \<notin> fst ` set (one_object 0)"
    by (simp add: one_object_def quote_params_def)
  note t = params_mutated_on_miss [of "server quote_body 1000 1040" "constructor ''KEY''"
      sample_runtime one_object 0, OF u a]
  show ?thesis
  proof (intro conjI)
    from t have "snd (makeRequest_at sample_runtime (server quote_body 1000 1040)
        (constructor ''KEY'') one_object 0) 0
        = one_object 0 @ [(''apikey'', JStr (apiKey (constructor ''KEY'')))]"
      by (rule conjunct1)
    then show "snd (makeRequest_at sample_runtime (server quote_body 1000 1040)
        (constructor ''KEY'') one_object 0) 0
        = [(''function'', JStr ''GLOBAL_QUOTE''), (''symbol'', JStr ''IBM''),
           (''apikey'', JStr ''KEY'')]"
      by (simp add: constructor_def one_object_def quote_params_def)
  next
    from t show "JSON_stringify sample_runtime
        (snd (makeRequest_at sample_runtime (server quote_body 1000 1040) (constructor ''KEY'')
           one_object 0) 0)
        \<noteq> JSON_stringify sample_runtime (one_object 0)"
      by blast
  qed
qed

lemma dom_cache_makeRequest:
  "dom (cache (state (makeRequest rt env st p))) \<subseteq> insert (JSON_stringify rt p) (dom (cache st))"
  using dom_cache_fetch_and_store [of rt env st p "JSON_stringify rt p"]
  by (auto simp add: makeRequest_def Let_def split: option.splits)

lemma credential_free_makeRequest:
  assumes "credential_free rt (cache st)" and "''apikey'' \<notin> fst ` set p"
  shows "credential_free rt (cache (state (makeRequest rt env st p)))"
  unfolding credential_free_def
proof
  fix k assume "k \<in> dom (cache (state (makeRequest rt env st p)))"
  with dom_cache_makeRequest [of rt env st p]
  have "k = JSON_stringify rt p \<or> k \<in> dom (cache st)" by auto
  then show "\<exists>q. ''apikey'' \<notin> fst ` set q \<and> k = JSON_stringify rt q"
  proof
    assume "k = JSON_stringify rt p"
    with assms(2) show ?thesis by blast
  next
    assume "k \<in> dom (cache st)"
    with assms(1) show ?thesis unfolding credential_free_def by blast
  qed
qed

lemma state_then_return [simp]: "state (then_return out f) = state out"
  by (simp add: then_return_def split: sum.splits)

text \<open>
  C10 (as amended). The only key \<open>makeRequest\<close> can add to the cache is the serialisation of
  \<open>params\<close> as the caller supplied it, taken before the credential is written into it. So
  a cache whose keys all serialise objects without an \<open>apikey\<close> property stays so when the
  supplied object has none, and every derived operation keeps it so, since each builds
  its own object without the credential.
\<close>

theorem cache_keys_from_supplied_params:
  "dom (cache (state (makeRequest rt env st p))) \<subseteq> insert (JSON_stringify rt p) (dom (cache st))
   \<and> (credential_free rt (cache st) \<and> ''apikey'' \<notin> fst ` set p
        \<longrightarrow> credential_free rt (cache (state (makeRequest rt env st p))))
   \<and> (credential_free rt (cache st) \<longrightarrow>
        credential_free rt (cache (state (getGlobalQuote rt env st symbol)))
      \<and> credential_free rt (cache (state (getTimeSeriesDaily rt env st symbol outputsize)))
      \<and> credential_free rt (cache (state (getTimeSeriesDailyAdjusted rt env st symbol outputsize)))
      \<and> credential_free rt (cache (state (symbolSearch rt env st keywords)))
      \<and> credential_free rt (cache (state (getCompanyOverview rt env st symbol)))
      \<and> credential_free rt (cache (state (getMarketStatus rt env st)))
      \<and> credential_free rt (cache (state (getMarketMovers rt env st listType)))
      \<and> credential_free rt (cache (state (getExchangeRate rt env st fromCurrency toCurrency)))
      \<and> credential_free rt (cache (state (getSMA rt env st symbol interval timePeriod seriesType)))
      \<and> credential_free rt (cache (state (getRSI rt env st symbol interval timePeriod seriesType)))
      \<and> credential_free rt (cache (state (getMACD rt env st symbol interval seriesType))))"
  by (simp add: dom_cache_makeRequest credential_free_makeRequest
      getGlobalQuote_def getTimeSeriesDaily_def getTimeSeriesDailyAdjusted_def symbolSearch_def
      getCompanyOverview_def getMarketStatus_def getMarketMovers_def getExchangeRate_def
      getSMA_def getRSI_def getMACD_def Let_def)

theorem cache_keys_from_supplied_params_witness:
  "credential_free sample_runtime (cache (constructor ''KEY''))
   \<and> credential_free sample_runtime (cache (state first_quote_call))"
  using cache_keys_from_supplied_params [of sample_runtime "server quote_body 1000 1040"
      "constructor ''KEY''" quote_params]
  by (simp add: first_quote_call_def credential_free_def constructor_def quote_params_def)

text \<open>
  A caller who passes the same object to \<open>makeRequest\<close> twice gets, at the second call, a
  cache key that is the serialisation of the object with the credential in it.
\<close>

theorem credential_in_cache_key_counterexample:
  \<open>snd reuse_first 0
     = [(''function'', JStr ''GLOBAL_QUOTE''), (''symbol'', JStr ''IBM''), (''apikey'', JStr ''KEY'')]
   \<and> cache (state (fst reuse_second))
        ''{"function":"GLOBAL_QUOTE","symbol":"IBM","apikey":"KEY"}''
     = Some \<lparr>data = quote_body, timestamp = 1080\<rparr>\<close>
  by (simp add: reuse_first_def reuse_second_def makeRequest_at_def one_object_def
      makeRequest_def constructor_def fetch_and_store_def
      server_def ok_def quote_body_def quote_params_def Let_def JSON_stringify_def
      QuoteJSONString_def quote_char_def)

section \<open>Properties of the derived operations\<close>

lemma result_then_return:
  "result (then_return out f) = (case result out of Inl e \<Rightarrow> Inl e | Inr d \<Rightarrow> f d)"
  by (simp add: then_return_def split: sum.splits)

lemma parseFloat_139_12: "parseFloat ''139.12'' = Num (13912 / 100)"
  by code_simp

text \<open>
  C8. When the document returned for the request has a \<open>Global Quote\<close> mapping with
  \<open>"01. symbol": "IBM"\<close> and \<open>"05. price": "139.12"\<close>, \<open>getGlobalQuote\<close> returns a Quote object
  whose \<open>symbol\<close> is the string \<open>IBM\<close> and whose \<open>price\<close> is the number \<open>139.12\<close>.
\<close>

theorem global_quote_fields:
  assumes "result (makeRequest rt env st [(''function'', JStr ''GLOBAL_QUOTE''), (''symbol'', symbol)])
             = Inr d"
    and "get_prop d ''Global Quote'' = Inr (JObj q)"
    and "map_of q ''01. symbol'' = Some (JStr ''IBM'')"
    and "map_of q ''05. price'' = Some (JStr ''139.12'')"
  shows "\<exists>quote. result (getGlobalQuote rt env st symbol) = Inr (JObj quote)
           \<and> map fst quote = [''symbol'', ''open'', ''high'', ''low'', ''price'', ''volume'',
                 ''latestTradingDay'', ''previousClose'', ''change'', ''changePercent'']
           \<and> map_of quote ''symbol'' = Some (JStr ''IBM'')
           \<and> map_of quote ''price'' = Some (JNum (Num (13912 / 100)))"
  using assms
  by (simp add: getGlobalQuote_def result_then_return on_prop_def parseGlobalQuote_def
      nullish_def jsget_def parseFloat_val_def parseFloat_139_12)

theorem global_quote_fields_witness:
  "\<exists>quote. result (getGlobalQuote sample_runtime (server quote_body 1000 1040) (constructor ''KEY'')
              (JStr ''IBM'')) = Inr (JObj quote)
           \<and> map fst quote = [''symbol'', ''open'', ''high'', ''low'', ''price'', ''volume'',
                 ''latestTradingDay'', ''previousClose'', ''change'', ''changePercent'']
           \<and> map_of quote ''symbol'' = Some (JStr ''IBM'')
           \<and> map_of quote ''price'' = Some (JNum (Num (13912 / 100)))"
proof -
  have r: "result (makeRequest sample_runtime (server quote_body 1000 1040) (constructor ''KEY'')
      [(''function'', JStr ''GLOBAL_QUOTE''), (''symbol'', JStr ''IBM'')]) = Inr quote_body"
    by (simp add: makeRequest_def constructor_def fetch_and_store_def
        server_def ok_def quote_body_def Let_def)
  have g: "get_prop quote_body ''Global Quote'' =
      Inr (JObj [(''01. symbol'', JStr ''IBM''), (''02. open'', JStr ''138.50''),
             (''05. price'', JStr ''139.12''), (''06. volume'', JStr ''3456789'')])"
    by (simp add: quote_body_def)
  from global_quote_fields [OF r g] show ?thesis by (simp del: map_of.simps)
qed

text \<open>
  C6. \<open>getMarketMovers\<close> returns the sequence that \<open>listType\<close> selects from the document
  returned for the request: \<open>top_gainers\<close> for \<open>'gainers'\<close>, \<open>top_losers\<close> for \<open>'losers'\<close>,
  \<open>most_actively_traded\<close> for \<open>'active'\<close> and for an omitted argument.
\<close>

theorem market_movers_selected:
  assumes "result (makeRequest rt env st [(''function'', JStr ''TOP_GAINERS_LOSERS'')]) = Inr d"
  shows "(get_prop d ''top_gainers'' = Inr (JArr gainers)
            \<longrightarrow> result (getMarketMovers rt env st (JStr ''gainers'')) = Inr (JArr gainers))
       \<and> (get_prop d ''top_losers'' = Inr (JArr losers)
            \<longrightarrow> result (getMarketMovers rt env st (JStr ''losers'')) = Inr (JArr losers))
       \<and> (get_prop d ''most_actively_traded'' = Inr (JArr active)
            \<longrightarrow> result (getMarketMovers rt env st (JStr ''active'')) = Inr (JArr active)
              \<and> result (getMarketMovers rt env st JUndefined) = Inr (JArr active))"
  using assms
  by (simp add: getMarketMovers_def result_then_return on_prop_def default_arg_def js_or_def)

theorem market_movers_selected_witness:
  "get_prop movers_body ''top_gainers'' = Inr (JArr [JObj [(''ticker'', JStr ''AAA'')]])
   \<and> result (getMarketMovers sample_runtime (server movers_body 1000 1040) (constructor ''KEY'')
        (JStr ''losers''))
     = Inr (JArr [JObj [(''ticker'', JStr ''BBB'')], JObj [(''ticker'', JStr ''CCC'')]])"
proof -
  have r: "result (makeRequest sample_runtime (server movers_body 1000 1040) (constructor ''KEY'')
      [(''function'', JStr ''TOP_GAINERS_LOSERS'')]) = Inr movers_body"
    by (simp add: makeRequest_def constructor_def fetch_and_store_def
        server_def ok_def movers_body_def Let_def)
  have l: "get_prop movers_body ''top_losers'' =
      Inr (JArr [JObj [(''ticker'', JStr ''BBB'')], JObj [(''ticker'', JStr ''CCC'')]])"
    by (simp add: movers_body_def)
  have g: "get_prop movers_body ''top_gainers'' = Inr (JArr [JObj [(''ticker'', JStr ''AAA'')]])"
    by (simp add: movers_body_def)
  from market_movers_selected [OF r, of gainers
      "[JObj [(''ticker'', JStr ''BBB'')], JObj [(''ticker'', JStr ''CCC'')]]" active] l g
  show ?thesis by simp
qed

subsection \<open>Time series are sorted by date\<close>

lemma mset_insert_by: "mset (insert_by cmp x xs) = add_mset x (mset xs)"
  by (induction xs) auto

lemma mset_Array_sort: "mset (Array_sort cmp xs) = mset xs"
  by (induction xs) (auto simp add: Array_sort_def mset_insert_by)

lemma set_insert_by: "set (insert_by cmp x xs) = insert x (set xs)"
  using mset_insert_by [of cmp x xs, THEN arg_cong, of set_mset] by simp

lemma sorted_insert_by:
  assumes "\<forall>y \<in> set xs. positive (cmp x y) = (key y < key x)"
    and "sorted (map key xs)"
  shows "sorted (map key (insert_by cmp x xs))"
  using assms
proof (induction xs)
  case Nil
  then show ?case by simp
next
  case (Cons y ys)
  show ?case
  proof (cases "positive (cmp x y)")
    case True
    with Cons.prems have "key y < key x" by simp
    moreover from Cons have "sorted (map key (insert_by cmp x ys))" by simp
    ultimately show ?thesis
      using True Cons.prems(2) by (auto simp add: set_insert_by)
  next
    case False
    with Cons.prems(1) have "\<not> key y < key x" by simp
    then have "key x \<le> key y" by (simp add: not_less)
    with False Cons.prems(2) show ?thesis by auto
  qed
qed

lemma sorted_Array_sort:
  assumes "\<forall>x \<in> set xs. \<forall>y \<in> set xs. positive (cmp x y) = (key y < key x)"
  shows "sorted (map key (Array_sort cmp xs))"
  using assms
proof (induction xs)
  case Nil
  then show ?case by (simp add: Array_sort_def)
next
  case (Cons x xs)
  then have ih: "sorted (map key (Array_sort cmp xs))" by simp
  have set: "set (Array_sort cmp xs) = set xs"
    using mset_Array_sort [of cmp xs, THEN arg_cong, of set_mset] by simp
  from Cons.prems have "\<forall>y \<in> set (Array_sort cmp xs). positive (cmp x y) = (key y < key x)"
    by (simp add: set)
  then have "sorted (map key (insert_by cmp x (Array_sort cmp xs)))"
    using ih by (rule sorted_insert_by)
  then show ?case by (simp add: Array_sort_def)
qed

lemma positive_by_date:
  assumes "bar_date rt a = Some x" and "bar_date rt b = Some y"
  shows "positive (by_date rt a b) = (y < x)"
  using assms by (simp add: by_date_def date_diff_def bar_date_def positive_def)

lemma sort_by_date:
  assumes dates: "\<forall>e \<in> set ts. DateParse rt (fst e) \<noteq> None"
    and mk: "\<And>e. jsget (mk e) ''date'' = JStr (fst e)"
  shows "\<exists>times. map (bar_date rt) (Array_sort (by_date rt) (map mk ts)) = map Some times
           \<and> sorted times
           \<and> (distinct (map (\<lambda>e. DateParse rt (fst e)) ts) \<longrightarrow> sorted_wrt (<) times)"
proof -
  let ?bars = "Array_sort (by_date rt) (map mk ts)"
  let ?key = "\<lambda>b. the (bar_date rt b)"
  have date_mk: "bar_date rt (mk e) = DateParse rt (fst e)" for e
    by (simp add: bar_date_def mk new_Date_def)
  have valid: "\<exists>t. bar_date rt b = Some t" if "b \<in> set (map mk ts)" for b
    using that dates by (auto simp add: date_mk)
  have "\<forall>a \<in> set (map mk ts). \<forall>b \<in> set (map mk ts).
      positive (by_date rt a b) = (?key b < ?key a)"
  proof (intro ballI)
    fix a b assume "a \<in> set (map mk ts)" "b \<in> set (map mk ts)"
    then obtain x y where "bar_date rt a = Some x" "bar_date rt b = Some y"
      using valid by blast
    then show "positive (by_date rt a b) = (?key b < ?key a)"
      by (simp add: positive_by_date)
  qed
  then have sorted: "sorted (map ?key ?bars)" by (rule sorted_Array_sort)
  have mset: "mset ?bars = mset (map mk ts)" by (rule mset_Array_sort)
  then have "set ?bars = set (map mk ts)" by (rule mset_eq_setD)
  with valid have "\<forall>b \<in> set ?bars. bar_date rt b = Some (?key b)" by auto
  then have times: "map (bar_date rt) ?bars = map Some (map ?key ?bars)" by simp
  have strict: "sorted_wrt (<) (map ?key ?bars)"
    if d: "distinct (map (\<lambda>e. DateParse rt (fst e)) ts)"
  proof -
    from mset have "image_mset (bar_date rt) (mset ?bars)
        = image_mset (bar_date rt) (mset (map mk ts))"
      by (rule arg_cong)
    then have "mset (map (bar_date rt) ?bars) = mset (map (bar_date rt) (map mk ts))"
      by (simp only: mset_map)
    also have "map (bar_date rt) (map mk ts) = map (\<lambda>e. DateParse rt (fst e)) ts"
      by (simp add: date_mk)
    finally have "mset (map (bar_date rt) ?bars) = mset (map (\<lambda>e. DateParse rt (fst e)) ts)" .
    then have "distinct (map (bar_date rt) ?bars) = distinct (map (\<lambda>e. DateParse rt (fst e)) ts)"
      by (rule mset_eq_imp_distinct_iff)
    with d have "distinct (map (bar_date rt) ?bars)" by simp
    then have "distinct (map Some (map ?key ?bars))" unfolding times .
    then have "distinct (map ?key ?bars)" by (metis distinct_map)
    with sorted show ?thesis by (simp add: strict_sorted_iff)
  qed
  from times sorted strict show ?thesis by blast
qed

lemma parse_series:
  assumes "\<forall>e \<in> set ts. \<not> nullish (snd e)"
  shows "parseTimeSeries rt (JObj ts) = Inr (JArr (Array_sort (by_date rt) (map (daily_bar rt) ts)))"
    and "parseTimeSeriesAdjusted rt (JObj ts)
           = Inr (JArr (Array_sort (by_date rt) (map (adjusted_bar rt) ts)))"
  using assms by (simp_all add: parseTimeSeries_def parseTimeSeriesAdjusted_def list_ex_iff)

lemma date_of_bar:
  "jsget (daily_bar rt e) ''date'' = JStr (fst e)" "jsget (adjusted_bar rt e) ''date'' = JStr (fst e)"
  by (simp_all add: daily_bar_def adjusted_bar_def jsget_def Let_def)

text \<open>
  C4. When the document returned for the request has a \<open>Time Series (Daily)\<close> mapping whose
  keys are dates and whose values are not \<open>null\<close>, \<open>getTimeSeriesDaily\<close> and
  \<open>getTimeSeriesDailyAdjusted\<close> return the bars of the mapping's entries, one bar for each
  entry, in ascending order of their dates; when the dates are distinct the order is
  strictly ascending.
\<close>

theorem time_series_sorted:
  assumes "get_prop d ''Time Series (Daily)'' = Inr (JObj ts)"
    and "\<forall>e \<in> set ts. \<not> nullish (snd e) \<and> DateParse rt (fst e) \<noteq> None"
  shows "(result (makeRequest rt env st
             [(''function'', JStr ''TIME_SERIES_DAILY''), (''symbol'', symbol),
              (''outputsize'', default_arg outputsize (JStr ''compact''))]) = Inr d
          \<longrightarrow> (\<exists>bars times.
                 result (getTimeSeriesDaily rt env st symbol outputsize) = Inr (JArr bars)
               \<and> mset bars = mset (map (daily_bar rt) ts)
               \<and> map (bar_date rt) bars = map Some times
               \<and> sorted times
               \<and> (distinct (map (\<lambda>e. DateParse rt (fst e)) ts) \<longrightarrow> sorted_wrt (<) times)))
       \<and> (result (makeRequest rt env st
             [(''function'', JStr ''TIME_SERIES_DAILY_ADJUSTED''), (''symbol'', symbol),
              (''outputsize'', default_arg outputsize (JStr ''compact''))]) = Inr d
          \<longrightarrow> (\<exists>bars times.
                 result (getTimeSeriesDailyAdjusted rt env st symbol outputsize) = Inr (JArr bars)
               \<and> mset bars = mset (map (adjusted_bar rt) ts)
               \<and> map (bar_date rt) bars = map Some times
               \<and> sorted times
               \<and> (distinct (map (\<lambda>e. DateParse rt (fst e)) ts) \<longrightarrow> sorted_wrt (<) times)))"
proof -
  from assms(2) have nonnull: "\<forall>e \<in> set ts. \<not> nullish (snd e)"
    and dates: "\<forall>e \<in> set ts. DateParse rt (fst e) \<noteq> None"
    by simp_all
  have daily: "\<exists>bars times.
        result (getTimeSeriesDaily rt env st symbol outputsize) = Inr (JArr bars)
      \<and> mset bars = mset (map (daily_bar rt) ts)
      \<and> map (bar_date rt) bars = map Some times
      \<and> sorted times
      \<and> (distinct (map (\<lambda>e. DateParse rt (fst e)) ts) \<longrightarrow> sorted_wrt (<) times)"
    if r: "result (makeRequest rt env st
             [(''function'', JStr ''TIME_SERIES_DAILY''), (''symbol'', symbol),
              (''outputsize'', default_arg outputsize (JStr ''compact''))]) = Inr d"
  proof -
    let ?bars = "Array_sort (by_date rt) (map (daily_bar rt) ts)"
    have "result (getTimeSeriesDaily rt env st symbol outputsize) = Inr (JArr ?bars)"
      using r assms(1) by (simp add: getTimeSeriesDaily_def result_then_return on_prop_def
          parse_series [OF nonnull])
    moreover have "mset ?bars = mset (map (daily_bar rt) ts)" by (rule mset_Array_sort)
    moreover from sort_by_date [where mk = "daily_bar rt", OF dates date_of_bar(1)]
    obtain times where "map (bar_date rt) ?bars = map Some times" "sorted times"
      "distinct (map (\<lambda>e. DateParse rt (fst e)) ts) \<longrightarrow> sorted_wrt (<) times"
      by blast
    ultimately show ?thesis by blast
  qed
  have adjusted: "\<exists>bars times.
        result (getTimeSeriesDailyAdjusted rt env st symbol outputsize) = Inr (JArr bars)
      \<and> mset bars = mset (map (adjusted_bar rt) ts)
      \<and> map (bar_date rt) bars = map Some times
      \<and> sorted times
      \<and> (distinct (map (\<lambda>e. DateParse rt (fst e)) ts) \<longrightarrow> sorted_wrt (<) times)"
    if r: "result (makeRequest rt env st
             [(''function'', JStr ''TIME_SERIES_DAILY_ADJUSTED''), (''symbol'', symbol),
              (''outputsize'', default_arg outputsize (JStr ''compact''))]) = Inr d"
  proof -
    let ?bars = "Array_sort (by_date rt) (map (adjusted_bar rt) ts)"
    have "result (getTimeSeriesDailyAdjusted rt env st symbol outputsize) = Inr (JArr ?bars)"
      using r assms(1) by (simp add: getTimeSeriesDailyAdjusted_def result_then_return on_prop_def
          parse_series [OF nonnull])
    moreover have "mset ?bars = mset (map (adjusted_bar rt) ts)" by (rule mset_Array_sort)
    moreover from sort_by_date [where mk = "adjusted_bar rt", OF dates date_of_bar(2)]
    obtain times where "map (bar_date rt) ?bars = map Some times" "sorted times"
      "distinct (map (\<lambda>e. DateParse rt (fst e)) ts) \<longrightarrow> sorted_wrt (<) times"
      by blast
    ultimately show ?thesis by blast
  qed
  from daily adjusted show ?thesis by blast
qed

lemma series_dates:
  "map iso_date [''2024-03-05'', ''2024-01-15'', ''2024-02-29'']
     = [Some 1709596800000, Some 1705276800000, Some 1709164800000]"
  by code_simp

lemma series_order:
  "(case result (getTimeSeriesDaily sample_runtime (server series_body 1000 1040)
        (constructor ''KEY'') (JStr ''IBM'') JUndefined) of
      Inr (JArr bars) \<Rightarrow> map (\<lambda>b. jsget b ''date'') bars
    | _ \<Rightarrow> [])
   = [JStr ''2024-01-15'', JStr ''2024-02-29'', JStr ''2024-03-05'']"
  by code_simp

theorem time_series_sorted_witness:
  "\<exists>bars times.
      result (getTimeSeriesDaily sample_runtime (server series_body 1000 1040)
        (constructor ''KEY'') (JStr ''IBM'') JUndefined) = Inr (JArr bars)
    \<and> mset bars = mset (map (daily_bar sample_runtime) series_entries)
    \<and> map (bar_date sample_runtime) bars = map Some times
    \<and> sorted_wrt (<) times
    \<and> map (\<lambda>b. jsget b ''date'') bars
        = [JStr ''2024-01-15'', JStr ''2024-02-29'', JStr ''2024-03-05'']"
proof -
  have r: "result (makeRequest sample_runtime (server series_body 1000 1040) (constructor ''KEY'')
      [(''function'', JStr ''TIME_SERIES_DAILY''), (''symbol'', JStr ''IBM''),
       (''outputsize'', default_arg JUndefined (JStr ''compact''))]) = Inr series_body"
    by (simp add: makeRequest_def constructor_def fetch_and_store_def
        server_def ok_def series_body_def Let_def)
  have g: "get_prop series_body ''Time Series (Daily)'' = Inr (JObj series_entries)"
    by (simp add: series_body_def)
  have dates: "map (\<lambda>e. DateParse sample_runtime (fst e)) series_entries
      = [Some 1709596800000, Some 1705276800000, Some 1709164800000]"
    using series_dates by (simp add: series_entries_def sample_runtime_def)
  have h: "\<forall>e \<in> set series_entries.
      \<not> nullish (snd e) \<and> DateParse sample_runtime (fst e) \<noteq> None"
    using dates by (simp add: series_entries_def nullish_def)
  have d: "distinct (map (\<lambda>e. DateParse sample_runtime (fst e)) series_entries)"
    by (simp add: dates)
  from time_series_sorted [OF g h, where env = "server series_body 1000 1040"
      and st = "constructor ''KEY''" and symbol = "JStr ''IBM''" and outputsize = JUndefined] r d
  obtain bars times where b:
    "result (getTimeSeriesDaily sample_runtime (server series_body 1000 1040)
        (constructor ''KEY'') (JStr ''IBM'') JUndefined) = Inr (JArr bars)"
    "mset bars = mset (map (daily_bar sample_runtime) series_entries)"
    "map (bar_date sample_runtime) bars = map Some times"
    "sorted_wrt (<) times"
    by blast
  from series_order b(1) have "map (\<lambda>b. jsget b ''date'') bars
      = [JStr ''2024-01-15'', JStr ''2024-02-29'', JStr ''2024-03-05'']"
    by simp
  with b show ?thesis
    by (intro exI [where x = bars] exI [where x = times] conjI)
qed

subsection \<open>Documents without the expected key\<close>

lemma makeRequest_returns:
  assumes "\<not> usable env st (JSON_stringify rt p)"
    and "fetch env (request_url rt st p) = Response status (Some d)"
    and "ok status"
    and "get_prop d ''Error Message'' = Inr JUndefined"
  shows "result (makeRequest rt env st p) = Inr d"
proof -
  from assms have "makeRequest rt env st p = stored rt env st p (JSON_stringify rt p) d"
    by (intro makeRequest_success [where m = JUndefined]) simp_all
  then show ?thesis by (simp add: stored_def)
qed

lemma Object_keys_defined:
  assumes "get_prop d k = Inr v"
  shows "\<exists>ks. Object_keys d = Inr ks"
  using assms by (cases d) (simp_all add: Object_keys_def)

text \<open>
  C5. Let the answer to every request be a document in which the field \<open>Error Message\<close>
  and every recognized top-level key are absent (reading them gives \<open>undefined\<close>), and let
  no cached entry be usable. Then no derived operation fails, and each returns its absent
  value: \<open>null\<close> for \<open>getGlobalQuote\<close>, \<open>getTimeSeriesDaily\<close>, \<open>getTimeSeriesDailyAdjusted\<close> and
  \<open>getExchangeRate\<close>; the empty sequence for \<open>symbolSearch\<close>, \<open>getMarketStatus\<close> and
  \<open>getMarketMovers\<close>; the empty mapping for \<open>getSMA\<close>, \<open>getRSI\<close> and \<open>getMACD\<close>.
  \<open>getCompanyOverview\<close> returns \<open>null\<close> when the document has no keys at all, as the empty
  mapping, and the document itself otherwise.
\<close>

theorem absent_values:
  assumes miss: "\<forall>k. \<not> usable env st k"
    and reply: "\<forall>url. fetch env url = Response status (Some d)"
    and status: "ok status"
    and absent: "\<forall>k \<in> set (''Error Message'' # recognized_keys). get_prop d k = Inr JUndefined"
  shows "result (getGlobalQuote rt env st symbol) = Inr JNull
       \<and> result (getTimeSeriesDaily rt env st symbol outputsize) = Inr JNull
       \<and> result (getTimeSeriesDailyAdjusted rt env st symbol outputsize) = Inr JNull
       \<and> result (symbolSearch rt env st keywords) = Inr (JArr [])
       \<and> result (getCompanyOverview rt env st symbol)
           = Inr (if Object_keys d = Inr [] then JNull else d)
       \<and> Object_keys (JObj []) = Inr []
       \<and> result (getMarketStatus rt env st) = Inr (JArr [])
       \<and> result (getMarketMovers rt env st listType) = Inr (JArr [])
       \<and> result (getExchangeRate rt env st fromCurrency toCurrency) = Inr JNull
       \<and> result (getSMA rt env st symbol interval timePeriod seriesType) = Inr (JObj [])
       \<and> result (getRSI rt env st symbol interval timePeriod seriesType) = Inr (JObj [])
       \<and> result (getMACD rt env st symbol interval seriesType) = Inr (JObj [])"
proof -
  from absent have no_error: "get_prop d ''Error Message'' = Inr JUndefined" by simp
  have req: "result (makeRequest rt env st p) = Inr d" for p
    using miss reply status no_error by (intro makeRequest_returns [of env st rt p status]) simp_all
  have key: "get_prop d k = Inr JUndefined" if "k \<in> set recognized_keys" for k
    using absent that by simp
  from no_error obtain ks where ks: "Object_keys d = Inr ks" by (blast dest: Object_keys_defined)
  have 1: "result (getGlobalQuote rt env st symbol) = Inr JNull"
    by (simp add: getGlobalQuote_def result_then_return req on_prop_def key recognized_keys_def)
  have 2: "result (getTimeSeriesDaily rt env st symbol outputsize) = Inr JNull"
    by (simp add: getTimeSeriesDaily_def result_then_return req on_prop_def key recognized_keys_def)
  have 3: "result (getTimeSeriesDailyAdjusted rt env st symbol outputsize) = Inr JNull"
    by (simp add: getTimeSeriesDailyAdjusted_def result_then_return req on_prop_def key
        recognized_keys_def)
  have 4: "result (symbolSearch rt env st keywords) = Inr (JArr [])"
    by (simp add: symbolSearch_def result_then_return req on_prop_def key recognized_keys_def)
  have 5: "result (getCompanyOverview rt env st symbol)
      = Inr (if Object_keys d = Inr [] then JNull else d)"
    by (simp add: getCompanyOverview_def result_then_return req ks)
  have 6: "result (getMarketStatus rt env st) = Inr (JArr [])"
    by (simp add: getMarketStatus_def result_then_return req on_prop_def key recognized_keys_def
        js_or_def)
  have 7: "result (getMarketMovers rt env st listType) = Inr (JArr [])"
    by (simp add: getMarketMovers_def result_then_return req on_prop_def key recognized_keys_def
        js_or_def Let_def)
  have 8: "result (getExchangeRate rt env st fromCurrency toCurrency) = Inr JNull"
    by (simp add: getExchangeRate_def result_then_return req on_prop_def key recognized_keys_def)
  have 9: "result (getSMA rt env st symbol interval timePeriod seriesType) = Inr (JObj [])"
    by (simp add: getSMA_def result_then_return req on_prop_def key recognized_keys_def js_or_def)
  have 10: "result (getRSI rt env st symbol interval timePeriod seriesType) = Inr (JObj [])"
    by (simp add: getRSI_def result_then_return req on_prop_def key recognized_keys_def js_or_def)
  have 11: "result (getMACD rt env st symbol interval seriesType) = Inr (JObj [])"
    by (simp add: getMACD_def result_then_return req on_prop_def key recognized_keys_def js_or_def)
  have 12: "Object_keys (JObj []) = Inr []" by (simp add: Object_keys_def)
  from 1 2 3 4 5 6 7 8 9 10 11 12 show ?thesis by blast
qed

theorem absent_values_witness:
  "result (getGlobalQuote sample_runtime (server information_body 1000 1040) (constructor ''KEY'')
      (JStr ''IBM'')) = Inr JNull
   \<and> result (getCompanyOverview sample_runtime (server (JObj []) 1000 1040) (constructor ''KEY'')
      (JStr ''IBM'')) = Inr JNull
   \<and> result (symbolSearch sample_runtime (server information_body 1000 1040) (constructor ''KEY'')
      (JStr ''IB'')) = Inr (JArr [])
   \<and> result (getSMA sample_runtime (server information_body 1000 1040) (constructor ''KEY'')
      (JStr ''IBM'') JUndefined JUndefined JUndefined) = Inr (JObj [])"
proof -
  have m: "\<forall>k. \<not> usable e (constructor ''KEY'') k" for e
    by (simp add: usable_def constructor_def)
  have i: "\<forall>url. fetch (server information_body 1000 1040) url = Response 200 (Some information_body)"
    by (simp add: server_def)
  have e: "\<forall>url. fetch (server (JObj []) 1000 1040) url = Response 200 (Some (JObj []))"
    by (simp add: server_def)
  have s: "ok 200" by (simp add: ok_def)
  have ai: "\<forall>k \<in> set (''Error Message'' # recognized_keys).
      get_prop information_body k = Inr JUndefined"
    by (simp add: recognized_keys_def information_body_def)
  have ae: "\<forall>k \<in> set (''Error Message'' # recognized_keys). get_prop (JObj []) k = Inr JUndefined"
    by simp
  note t = absent_values [OF m i s ai, of sample_runtime "JStr ''IBM''" _ "JStr ''IB''" _ _ _
      JUndefined JUndefined JUndefined]
  have a: "result (getGlobalQuote sample_runtime (server information_body 1000 1040)
      (constructor ''KEY'') (JStr ''IBM'')) = Inr JNull"
    and b: "result (symbolSearch sample_runtime (server information_body 1000 1040)
      (constructor ''KEY'') (JStr ''IB'')) = Inr (JArr [])"
    and c: "result (getSMA sample_runtime (server information_body 1000 1040) (constructor ''KEY'')
      (JStr ''IBM'') JUndefined JUndefined JUndefined) = Inr (JObj [])"
    using t by blast+
  have d: "result (getCompanyOverview sample_runtime (server (JObj []) 1000 1040)
      (constructor ''KEY'') (JStr ''IBM'')) = Inr JNull"
    using absent_values [OF m e s ae, where rt = sample_runtime and symbol = "JStr ''IBM''"]
    by (simp add: Object_keys_def)
  from a b c d show ?thesis by simp
qed

end
